theory Spec2Isabelle
  imports Main "HOL-Library.Word" "HOL-Library.Signed_Division" "HOL-Library.Monad_Syntax"
begin

unbundle bit_operations_syntax

section \<open>Machine integers and compiler built-ins\<close>

text \<open>
  The target is a 16-bit dsPIC: \<open>int\<close> is 16 bits wide, \<open>long\<close> is 32 bits wide, and
  arithmetic wraps around.  Signed values are words read through \<open>sint\<close>; signed
  comparisons are \<open>(<s)\<close> and \<open>(\<le>s)\<close>, unsigned ones are \<open>(<)\<close> and \<open>(\<le>)\<close>.
\<close>

type_synonym int16_t = "16 word"
type_synonym uint16_t = "16 word"
type_synonym int32_t = "32 word"

text \<open>
  \<open>__builtin_mulss(int, int)\<close>: the signed 16 x 16 -> 32 bit product.
\<close>

definition builtin_mulss :: "int16_t \<Rightarrow> int16_t \<Rightarrow> int32_t" where
  "builtin_mulss a b = word_of_int (sint a * sint b)"

text \<open>
  \<open>__builtin_divf(int num, int den)\<close>: the signed fractional (Q15) quotient
  \<open>num / den\<close>.  A zero divisor raises the math-error trap, which is the value \<open>None\<close>.
  The quotient is defined for \<open>|num| < |den|\<close>; outside that range the divide unit
  overflows without a trap, and what it leaves in the result is the parameter \<open>ovf\<close>.
\<close>

definition builtin_divf ::
  "(int16_t \<Rightarrow> int16_t \<Rightarrow> int16_t) \<Rightarrow> int16_t \<Rightarrow> int16_t \<Rightarrow> int16_t option" where
  "builtin_divf ovf num den =
     (if den = 0 then None
      else if \<bar>sint num\<bar> < \<bar>sint den\<bar>
        then Some (word_of_int ((sint num * 2 ^ 15) sdiv sint den))
        else Some (ovf num den))"

text \<open>
  \<open>__builtin_divsd(long num, int den)\<close>: the signed 32 / 16 -> 16 bit quotient, rounded
  towards zero.  A zero divisor raises the math-error trap (\<open>None\<close>); a quotient
  that does not fit 16 bits overflows without a trap, with the result \<open>ovf\<close>.
\<close>

definition builtin_divsd ::
  "(int32_t \<Rightarrow> int16_t \<Rightarrow> int16_t) \<Rightarrow> int32_t \<Rightarrow> int16_t \<Rightarrow> int16_t option" where
  "builtin_divsd ovf num den =
     (if den = 0 then None
      else let q = sint num sdiv sint den
        in if - (2 ^ 15) \<le> q \<and> q < 2 ^ 15 then Some (word_of_int q) else Some (ovf num den))"

section \<open>Data model\<close>

text \<open>
  The header \<open>pfc.h\<close> with the structure declarations is not among the sources.  The
  records below hold the fields that \<open>pfc.c\<close> reads and writes.  Field names carry the
  structure's suffix where two structures use the same name.  Widths follow the
  casts and the operand types of the built-ins in \<open>pfc.c\<close>: the window sums are the
  \<open>long\<close> dividend of \<open>__builtin_divsd\<close>, the quantities stored through an
  \<open>(int16_t)\<close> cast or compared with Q15 constants are \<open>int16_t\<close>, the duty is the
  \<open>uint16_t\<close> local of the current loop, the fault status is a 16-bit mask.
\<close>

record PFC_AVG_T =
  sum_avg :: int32_t
  samples_avg :: int16_t
  sampleLimit_avg :: int16_t
  output_avg :: int16_t
  status_avg :: int16_t
  scaler :: int16_t

record PFC_RMS_SQUARE_T =
  sum_rms :: int32_t
  samples_rms :: int16_t
  sampleLimit_rms :: int16_t
  sqrOutput :: int16_t
  status_rms :: int16_t
  peak :: int16_t

record PFC_MEASURE_VOLTAGE_T =
  vdc :: int16_t
  vac :: int16_t
  offsetVac :: int16_t

record PFC_MEASURE_CURRENT_T =
  iL_meas :: int16_t
  offset_meas :: int16_t
  status_meas :: int16_t

record PFC_PI_T =
  kp :: int16_t
  ki :: int16_t
  kpScale :: int16_t
  kiScale :: int16_t
  integralOut :: int32_t
  minOutput :: int16_t
  maxOutput :: int16_t
  reference :: int16_t
  error_pi :: int16_t
  output_pi :: int16_t

text \<open>
  The five states of the enumeration; \<open>PFC_STATE_OTHER\<close> stands for any other value
  of the state variable, which the \<open>default\<close> branch of the switch receives.
\<close>

datatype PFC_STATE_T =
  PFC_INIT | PFC_OFFSET_MEAS | PFC_WAIT_1CYCLE | PFC_CTRL_RUN | PFC_FAULT | PFC_STATE_OTHER

record PFC_T =
  state :: PFC_STATE_T
  pfcCurrent :: PFC_MEASURE_CURRENT_T
  pfcVoltage :: PFC_MEASURE_VOLTAGE_T
  vdcAVG :: PFC_AVG_T
  vacAVG :: PFC_AVG_T
  vacRMS :: PFC_RMS_SQUARE_T
  piVoltage :: PFC_PI_T
  piCurrent :: PFC_PI_T
  rectifiedVac :: int16_t
  iL :: int16_t
  faultStatus :: uint16_t
  duty :: uint16_t
  boostDutyRatio :: int16_t
  currentReference :: int16_t
  averageCurrent :: int16_t
  rampRate :: int16_t
  voltLoopExeRate :: int16_t
  sampleCorrectionEnable :: int16_t

text \<open>
  The routines of other translation units that \<open>pfc.c\<close> calls, and the results that
  the divide unit leaves on overflow, are parameters: every theorem below holds for
  each choice of them.  A routine that receives a pointer to a sub-structure is a
  function on that sub-structure.
\<close>

record PFC_EXTERN =
  PFC_PIController :: "PFC_PI_T \<Rightarrow> int16_t \<Rightarrow> PFC_PI_T"
  PFC_MeasureCurrentInit :: "PFC_MEASURE_CURRENT_T \<Rightarrow> PFC_MEASURE_CURRENT_T"
  PFC_MeasureCurrentOffset :: "PFC_MEASURE_CURRENT_T \<Rightarrow> PFC_MEASURE_CURRENT_T"
  divf_overflow :: "int16_t \<Rightarrow> int16_t \<Rightarrow> int16_t"
  divsd_overflow :: "int32_t \<Rightarrow> int16_t \<Rightarrow> int16_t"

section \<open>Signal conditioning\<close>

definition PFC_SignalRectification :: "PFC_MEASURE_VOLTAGE_T \<Rightarrow> int16_t" where
  "PFC_SignalRectification pSignal =
     (let output = vac pSignal - offsetVac pSignal
      in if output <s 0 then - output else output)"

definition PFC_SquaredRMSCalculate ::
  "PFC_EXTERN \<Rightarrow> PFC_RMS_SQUARE_T \<Rightarrow> int16_t \<Rightarrow> PFC_RMS_SQUARE_T option" where
  "PFC_SquaredRMSCalculate x pData input =
     (let sq = (ucast (signed_drop_bit 15 (builtin_mulss input input)) :: int16_t);
          pData = pData\<lparr>sum_rms := sum_rms pData + scast sq\<rparr>
      in if samples_rms pData <s sampleLimit_rms pData
         then Some (pData\<lparr>samples_rms := samples_rms pData + 1\<rparr>)
         else do {
           q \<leftarrow> builtin_divsd (divsd_overflow x) (sum_rms pData) (sampleLimit_rms pData);
           Some (pData\<lparr>sqrOutput := q, status_rms := 1, samples_rms := 0, sum_rms := 0\<rparr>)
         })"

definition PFC_Average ::
  "PFC_EXTERN \<Rightarrow> PFC_AVG_T \<Rightarrow> int16_t \<Rightarrow> PFC_AVG_T option" where
  "PFC_Average x pData input =
     (let pData = pData\<lparr>sum_avg := sum_avg pData + scast input\<rparr>;
          pData = pData\<lparr>samples_avg := samples_avg pData + 1\<rparr>
      in if sampleLimit_avg pData \<le>s samples_avg pData
         then do {
           q \<leftarrow> builtin_divsd (divsd_overflow x) (sum_avg pData) (sampleLimit_avg pData);
           Some (pData\<lparr>output_avg := q, status_avg := 1, sum_avg := 0, samples_avg := 0\<rparr>)
         }
         else Some pData)"

section \<open>Configuration constants\<close>

text \<open>
  The macros of \<open>pfc.h\<close> and of the board headers that \<open>pfc.c\<close> uses are not among
  the sources either; they are the fields of one record, and the functions take it
  as their first argument.  The three conditional-compilation switches are
  booleans.  \<open>Q15_0_9999\<close> and \<open>Q15_0_999\<close> are the values of \<open>Q15(0.9999)\<close> and
  \<open>Q15(0.999)\<close>.
\<close>

record PFC_CONFIG =
  PFC_RMS_SQUARE_COUNTMAX :: int16_t
  PFC_AVG_SCALER :: int16_t
  PFC_INPUT_FREQUENCY_COUNTER :: int16_t
  KP_I :: int16_t
  KI_I :: int16_t
  KP_I_SCALE :: int16_t
  KI_I_SCALE :: int16_t
  KP_V :: int16_t
  KI_V :: int16_t
  KP_V_SCALE :: int16_t
  KI_V_SCALE :: int16_t
  KI_I_INTGRAL_OUT_MAX :: int32_t
  PFC_LOOPTIME_TCY :: int16_t
  PFC_MAX_DUTY :: uint16_t
  PFC_MIN_DUTY :: uint16_t
  PFC_OUPUT_VOLTAGE_REFERENCE :: int16_t
  RAMP_COUNT :: int16_t
  RAMP_RATE :: int16_t
  PFC_MIN_CURRENTREF_PEAK_Q15 :: int16_t
  VOLTAGE_LOOP_EXE_RATE :: int16_t
  KMUL :: int16_t
  PFC_OUTPUT_OVER_VOLTAGE_LIMIT :: int16_t
  PFC_INPUT_UNDER_VOLTAGE_LIMIT_LO :: int16_t
  PFC_INPUT_UNDER_VOLTAGE_LIMIT_HI :: int16_t
  PFC_INPUT_OVER_VOLTAGE_LIMIT_LO :: int16_t
  PFC_INPUT_OVER_VOLTAGE_LIMIT_HI :: int16_t
  PFC_FAULT_NONE :: uint16_t
  PFC_FAULT_OP_OV :: uint16_t
  PFC_FAULT_IP_UV :: uint16_t
  PFC_FAULT_IP_OV :: uint16_t
  Q15_0_9999 :: int16_t
  Q15_0_999 :: int16_t
  ENABLE_PFC_CURRENT_OFFSET_CORRECTION :: bool
  PFC_POWER_CONTROL :: bool
  DEBUG_BOOST :: bool
  DEBUG_PFC_DUTY :: uint16_t

definition INT16_MAX :: int16_t where
  "INT16_MAX = 32767"

section \<open>Initialisation\<close>

text \<open>
  The window length of the DC-bus average is \<open>1 << scaler\<close>, a 16-bit shift: it is 0
  when the scaler is 16 or more.
\<close>

definition PFC_ParamsInit :: "PFC_CONFIG \<Rightarrow> PFC_T \<Rightarrow> PFC_T" where
  "PFC_ParamsInit c pfcData =
     (let pfcData = pfcData\<lparr>vacRMS := (vacRMS pfcData)\<lparr>sampleLimit_rms := PFC_RMS_SQUARE_COUNTMAX c\<rparr>\<rparr>;
          pfcData = pfcData\<lparr>vdcAVG := (vdcAVG pfcData)\<lparr>scaler := PFC_AVG_SCALER c\<rparr>\<rparr>;
          pfcData = pfcData\<lparr>vdcAVG := (vdcAVG pfcData)
                      \<lparr>sampleLimit_avg := push_bit (unat (scaler (vdcAVG pfcData))) 1\<rparr>\<rparr>;
          pfcData = pfcData\<lparr>vacAVG := (vacAVG pfcData)
                      \<lparr>sampleLimit_avg := PFC_INPUT_FREQUENCY_COUNTER c\<rparr>\<rparr>;
          pfcData = pfcData\<lparr>piCurrent := (piCurrent pfcData)
                      \<lparr>kp := KP_I c, ki := KI_I c, kpScale := KP_I_SCALE c, kiScale := KI_I_SCALE c,
                       maxOutput := INT16_MAX, minOutput := 0\<rparr>\<rparr>;
          pfcData = pfcData\<lparr>piVoltage := (piVoltage pfcData)
                      \<lparr>kp := KP_V c, ki := KI_V c, kpScale := KP_V_SCALE c, kiScale := KI_V_SCALE c,
                       maxOutput := INT16_MAX, minOutput := 0\<rparr>\<rparr>
      in pfcData\<lparr>state := PFC_INIT, faultStatus := PFC_FAULT_NONE c, sampleCorrectionEnable := 0\<rparr>)"

definition PFC_ResetParams :: "PFC_T \<Rightarrow> PFC_T" where
  "PFC_ResetParams pData =
     (let pData = pData\<lparr>vdcAVG := (vdcAVG pData)\<lparr>sum_avg := 0, samples_avg := 0, status_avg := 0\<rparr>\<rparr>;
          pData = pData\<lparr>vacAVG := (vacAVG pData)\<lparr>sum_avg := 0, samples_avg := 0\<rparr>\<rparr>;
          pData = pData\<lparr>vacRMS := (vacRMS pData)
                    \<lparr>sum_rms := 0, samples_rms := 0, peak := 0, status_rms := 0\<rparr>\<rparr>;
          pData = pData\<lparr>piVoltage := (piVoltage pData)\<lparr>integralOut := 0\<rparr>\<rparr>;
          pData = pData\<lparr>piCurrent := (piCurrent pData)\<lparr>integralOut := 0\<rparr>\<rparr>
      in pData\<lparr>duty := 0\<rparr>)"

section \<open>Current loop\<close>

definition PFC_CurrentSampleCorrection :: "PFC_CONFIG \<Rightarrow> PFC_EXTERN \<Rightarrow> PFC_T \<Rightarrow> int16_t option" where
  "PFC_CurrentSampleCorrection c x pData = do {
     output \<leftarrow> (if 0 <s boostDutyRatio pData
                then builtin_divf (divf_overflow x) (output_pi (piCurrent pData)) (boostDutyRatio pData)
                else Some (Q15_0_9999 c));
     Some (if 0 <s output
           then ucast (signed_drop_bit 15 (builtin_mulss (iL pData) output))
           else iL pData)
   }"

text \<open>
  The value of the local \<open>duty\<close> of the current loop: the PI output scaled by the
  loop period, stored into a \<open>uint16_t\<close>.
\<close>

definition scaled_duty :: "PFC_CONFIG \<Rightarrow> int16_t \<Rightarrow> uint16_t" where
  "scaled_duty c out = ucast (signed_drop_bit 15 (builtin_mulss out (PFC_LOOPTIME_TCY c)))"

definition PFC_CurrentControlLoop :: "PFC_CONFIG \<Rightarrow> PFC_EXTERN \<Rightarrow> PFC_T \<Rightarrow> PFC_T option" where
  "PFC_CurrentControlLoop c x pData = do {
     let pData = (if iL pData <s 0 then pData\<lparr>iL := 1\<rparr> else pData);
     pData \<leftarrow> (if sampleCorrectionEnable pData = 1
                then do {
                  a \<leftarrow> PFC_CurrentSampleCorrection c x pData;
                  Some (pData\<lparr>averageCurrent := a\<rparr>)
                }
                else Some (pData\<lparr>averageCurrent := iL pData\<rparr>));
     let pData = pData\<lparr>piCurrent := PFC_PIController x (piCurrent pData)
                                      (currentReference pData - averageCurrent pData)\<rparr>;
     let duty' = scaled_duty c (output_pi (piCurrent pData));
     Some (if PFC_MAX_DUTY c < duty'
           then pData\<lparr>duty := PFC_MAX_DUTY c,
                      piCurrent := (piCurrent pData)\<lparr>integralOut := KI_I_INTGRAL_OUT_MAX c\<rparr>\<rparr>
           else if duty' < PFC_MIN_DUTY c
           then pData\<lparr>duty := PFC_MIN_DUTY c\<rparr>
           else pData\<lparr>duty := duty'\<rparr>)
   }"

section \<open>Current reference\<close>

definition PFC_CurrentRefGenerate :: "PFC_CONFIG \<Rightarrow> PFC_EXTERN \<Rightarrow> PFC_T \<Rightarrow> PFC_T option" where
  "PFC_CurrentRefGenerate c x pData = do {
     let pData =
       (if VOLTAGE_LOOP_EXE_RATE c <s voltLoopExeRate pData
        then let pv = piVoltage pData;
                 pv = pv\<lparr>error_pi := reference pv - output_avg (vdcAVG pData)\<rparr>;
                 pv = (if 700 <s error_pi pv \<or> error_pi pv <s - 700
                       then pv\<lparr>ki := signed_drop_bit 1 (KI_V c)\<rparr>
                       else pv\<lparr>ki := KI_V c\<rparr>);
                 pv = PFC_PIController x pv (error_pi pv)
             in pData\<lparr>piVoltage := pv, voltLoopExeRate := 0\<rparr>
        else pData\<lparr>voltLoopExeRate := voltLoopExeRate pData + 1\<rparr>);
     pData \<leftarrow>
       (if PFC_POWER_CONTROL c
        then do {
          let tempResult = (ucast (signed_drop_bit 18
                 (builtin_mulss (output_pi (piVoltage pData)) (rectifiedVac pData))) :: int16_t);
          tempResult \<leftarrow> (if 0 <s sqrOutput (vacRMS pData)
                          then builtin_divf (divf_overflow x) tempResult (sqrOutput (vacRMS pData))
                          else Some tempResult);
          Some (pData\<lparr>currentReference :=
                        ucast (signed_drop_bit 12 (builtin_mulss tempResult (KMUL c)))\<rparr>)
        }
        else Some pData);
     Some (if Q15_0_999 c <s currentReference pData
           then pData\<lparr>currentReference := Q15_0_999 c\<rparr>
           else if currentReference pData <s 0
           then pData\<lparr>currentReference := 0\<rparr>
           else pData)
   }"

section \<open>Fault detection\<close>

definition PFC_FaultCheck :: "PFC_CONFIG \<Rightarrow> PFC_T \<Rightarrow> PFC_T" where
  "PFC_FaultCheck c pData =
     (let pData = (if PFC_OUTPUT_OVER_VOLTAGE_LIMIT c \<le>s output_avg (vdcAVG pData)
                   then pData\<lparr>faultStatus := faultStatus pData + PFC_FAULT_OP_OV c\<rparr>
                   else pData);
          pData = (if sqrOutput (vacRMS pData) <s PFC_INPUT_UNDER_VOLTAGE_LIMIT_LO c
                   then pData\<lparr>faultStatus := faultStatus pData + PFC_FAULT_IP_UV c\<rparr>
                   else pData)
      in if PFC_INPUT_OVER_VOLTAGE_LIMIT_HI c \<le>s sqrOutput (vacRMS pData)
         then pData\<lparr>faultStatus := faultStatus pData + PFC_FAULT_IP_OV c\<rparr>
         else pData)"

section \<open>State machine\<close>

text \<open>
  Writes to the hardware (the calls that switch the PWM outputs, the stores to the
  enable pin, the duty register, the LED and the interrupt flag) are returned as the
  list of events of one cycle, in program order.
\<close>

datatype hw_event =
  HAL_PFCPWMDisableOutputs
  | HAL_PFCPWMEnableOutputs
  | PFC_ENABLE_SIGNAL_set
  | PFC_PWM_PDC_load uint16_t
  | LED1_clear
  | ClearPFCADCIF

text \<open>
  The statements of \<open>PFC_StateMachine\<close> before the switch: both moving averages, the
  offset of the AC measurement, the rectifier and the mean-square accumulator.
\<close>

definition PFC_StateMachine_conditioning :: "PFC_EXTERN \<Rightarrow> PFC_T \<Rightarrow> PFC_T option" where
  "PFC_StateMachine_conditioning x pfcData = do {
     a \<leftarrow> PFC_Average x (vdcAVG pfcData) (vdc (pfcVoltage pfcData));
     let pfcData = pfcData\<lparr>vdcAVG := a\<rparr>;
     a \<leftarrow> PFC_Average x (vacAVG pfcData) (vac (pfcVoltage pfcData));
     let pfcData = pfcData\<lparr>vacAVG := a\<rparr>;
     let pfcData = pfcData\<lparr>pfcVoltage := (pfcVoltage pfcData)\<lparr>offsetVac := output_avg (vacAVG pfcData)\<rparr>\<rparr>;
     let pfcData = pfcData\<lparr>rectifiedVac := PFC_SignalRectification (pfcVoltage pfcData)\<rparr>;
     r \<leftarrow> PFC_SquaredRMSCalculate x (vacRMS pfcData) (rectifiedVac pfcData);
     Some (pfcData\<lparr>vacRMS := r\<rparr>)
   }"

text \<open>
  Each branch of the switch returns the context, the new value of the local
  \<open>pfcState\<close> and the hardware events of the branch.
\<close>

definition PFC_StateMachine_INIT ::
  "PFC_EXTERN \<Rightarrow> PFC_T \<Rightarrow> PFC_T \<times> PFC_STATE_T \<times> hw_event list" where
  "PFC_StateMachine_INIT x pfcData =
     (let pfcData = PFC_ResetParams pfcData;
          pfcData = pfcData\<lparr>pfcCurrent := PFC_MeasureCurrentInit x (pfcCurrent pfcData)\<rparr>
      in (pfcData, PFC_OFFSET_MEAS, [HAL_PFCPWMDisableOutputs]))"

definition PFC_StateMachine_OFFSET_MEAS ::
  "PFC_EXTERN \<Rightarrow> PFC_T \<Rightarrow> PFC_T \<times> PFC_STATE_T \<times> hw_event list" where
  "PFC_StateMachine_OFFSET_MEAS x pfcData =
     (let pfcData = pfcData\<lparr>pfcCurrent := PFC_MeasureCurrentOffset x (pfcCurrent pfcData)\<rparr>
      in if status_meas (pfcCurrent pfcData) = 1 \<and> status_avg (vacAVG pfcData) = 1
         then (pfcData\<lparr>piVoltage := (piVoltage pfcData)\<lparr>reference := output_avg (vdcAVG pfcData)\<rparr>,
                       pfcVoltage := (pfcVoltage pfcData)\<lparr>offsetVac := output_avg (vacAVG pfcData)\<rparr>\<rparr>,
               PFC_WAIT_1CYCLE, [])
         else (pfcData, PFC_OFFSET_MEAS, []))"

definition PFC_StateMachine_WAIT_1CYCLE :: "PFC_T \<Rightarrow> PFC_T \<times> PFC_STATE_T \<times> hw_event list" where
  "PFC_StateMachine_WAIT_1CYCLE pfcData =
     (if status_rms (vacRMS pfcData) = 1
      then (pfcData, PFC_CTRL_RUN, [HAL_PFCPWMEnableOutputs])
      else (pfcData, PFC_WAIT_1CYCLE, []))"

text \<open>The soft start of the voltage reference, inside the run state.\<close>

definition PFC_StateMachine_softStart :: "PFC_CONFIG \<Rightarrow> PFC_T \<Rightarrow> PFC_T" where
  "PFC_StateMachine_softStart c pfcData =
     (if reference (piVoltage pfcData) <s PFC_OUPUT_VOLTAGE_REFERENCE c
      then if rampRate pfcData = 0
           then pfcData\<lparr>piVoltage := (piVoltage pfcData)
                            \<lparr>reference := reference (piVoltage pfcData) + RAMP_COUNT c\<rparr>,
                         rampRate := RAMP_RATE c\<rparr>
           else pfcData\<lparr>rampRate := rampRate pfcData - 1\<rparr>
      else pfcData\<lparr>piVoltage := (piVoltage pfcData)\<lparr>reference := PFC_OUPUT_VOLTAGE_REFERENCE c\<rparr>\<rparr>)"

definition PFC_StateMachine_boostDutyRatio :: "PFC_EXTERN \<Rightarrow> PFC_T \<Rightarrow> PFC_T option" where
  "PFC_StateMachine_boostDutyRatio x pfcData =
     (if 0 <s vdc (pfcVoltage pfcData)
      then do {
        r \<leftarrow> builtin_divf (divf_overflow x)
               (vdc (pfcVoltage pfcData) - rectifiedVac pfcData) (vdc (pfcVoltage pfcData));
        Some (pfcData\<lparr>boostDutyRatio := r\<rparr>)
      }
      else Some pfcData)"

definition PFC_StateMachine_minCurrentRef :: "PFC_CONFIG \<Rightarrow> PFC_T \<Rightarrow> PFC_T" where
  "PFC_StateMachine_minCurrentRef c pfcData =
     (if output_pi (piVoltage pfcData) <s PFC_MIN_CURRENTREF_PEAK_Q15 c
      then pfcData\<lparr>duty := 0, piCurrent := (piCurrent pfcData)\<lparr>integralOut := 0\<rparr>\<rparr>
      else pfcData)"

definition PFC_StateMachine_CTRL_RUN ::
  "PFC_CONFIG \<Rightarrow> PFC_EXTERN \<Rightarrow> PFC_T \<Rightarrow> (PFC_T \<times> PFC_STATE_T \<times> hw_event list) option" where
  "PFC_StateMachine_CTRL_RUN c x pfcData =
     (let pfcData = (if ENABLE_PFC_CURRENT_OFFSET_CORRECTION c
                     then pfcData\<lparr>iL := iL_meas (pfcCurrent pfcData) - offset_meas (pfcCurrent pfcData)\<rparr>
                     else pfcData);
          pfcData = PFC_FaultCheck c pfcData
      in if faultStatus pfcData = PFC_FAULT_NONE c
         then do {
           let pfcData = PFC_StateMachine_softStart c pfcData;
           pfcData \<leftarrow> PFC_CurrentRefGenerate c x pfcData;
           pfcData \<leftarrow> PFC_StateMachine_boostDutyRatio x pfcData;
           pfcData \<leftarrow> PFC_CurrentControlLoop c x pfcData;
           Some (PFC_StateMachine_minCurrentRef c pfcData, PFC_CTRL_RUN, [])
         }
         else Some (pfcData, PFC_FAULT, []))"

definition PFC_StateMachine_FAULT ::
  "PFC_CONFIG \<Rightarrow> PFC_T \<Rightarrow> PFC_T \<times> PFC_STATE_T \<times> hw_event list" where
  "PFC_StateMachine_FAULT c pfcData =
     (let pfcData = pfcData\<lparr>duty := 0\<rparr>;
          pfcData = (if PFC_INPUT_UNDER_VOLTAGE_LIMIT_HI c \<le>s sqrOutput (vacRMS pfcData)
                     then pfcData\<lparr>faultStatus := faultStatus pfcData AND NOT (PFC_FAULT_IP_UV c)\<rparr>
                     else pfcData);
          pfcData = (if sqrOutput (vacRMS pfcData) <s PFC_INPUT_OVER_VOLTAGE_LIMIT_LO c
                     then pfcData\<lparr>faultStatus := faultStatus pfcData AND NOT (PFC_FAULT_IP_OV c)\<rparr>
                     else pfcData)
      in if faultStatus pfcData = PFC_FAULT_NONE c
         then (pfcData\<lparr>piVoltage := (piVoltage pfcData)
                           \<lparr>integralOut := 0, reference := output_avg (vdcAVG pfcData)\<rparr>,
                        piCurrent := (piCurrent pfcData)\<lparr>integralOut := 0\<rparr>\<rparr>,
               PFC_CTRL_RUN, [HAL_PFCPWMDisableOutputs, HAL_PFCPWMEnableOutputs])
         else (pfcData, PFC_FAULT, [HAL_PFCPWMDisableOutputs]))"

definition PFC_StateMachine ::
  "PFC_CONFIG \<Rightarrow> PFC_EXTERN \<Rightarrow> PFC_T \<Rightarrow> (PFC_T \<times> hw_event list) option" where
  "PFC_StateMachine c x pfcData = do {
     let pfcState = state pfcData;
     pfcData \<leftarrow> PFC_StateMachine_conditioning x pfcData;
     (pfcData, pfcState, events) \<leftarrow>
       (case pfcState of
          PFC_INIT \<Rightarrow> Some (PFC_StateMachine_INIT x pfcData)
        | PFC_OFFSET_MEAS \<Rightarrow> Some (PFC_StateMachine_OFFSET_MEAS x pfcData)
        | PFC_WAIT_1CYCLE \<Rightarrow> Some (PFC_StateMachine_WAIT_1CYCLE pfcData)
        | PFC_CTRL_RUN \<Rightarrow> PFC_StateMachine_CTRL_RUN c x pfcData
        | PFC_FAULT \<Rightarrow> Some (PFC_StateMachine_FAULT c pfcData)
        | PFC_STATE_OTHER \<Rightarrow> Some (pfcData, pfcState, []));
     Some (pfcData\<lparr>state := pfcState\<rparr>, events)
   }"

text \<open>
  The interrupt: the three conversion results of the ADC are its inputs; it runs the
  state machine and loads the duty register.
\<close>

definition PFC_ADCInterrupt ::
  "PFC_CONFIG \<Rightarrow> PFC_EXTERN \<Rightarrow> int16_t \<times> int16_t \<times> int16_t \<Rightarrow> PFC_T
     \<Rightarrow> (PFC_T \<times> hw_event list) option" where
  "PFC_ADCInterrupt c x adc pfcParam =
     (case adc of (ADCBUF_VDC, ADCBUF_PFC_VAC, ADCBUF_PFC_IL) \<Rightarrow> do {
        let pfcParam = pfcParam\<lparr>pfcVoltage := (pfcVoltage pfcParam)\<lparr>vdc := ADCBUF_VDC, vac := ADCBUF_PFC_VAC\<rparr>,
                                 pfcCurrent := (pfcCurrent pfcParam)\<lparr>iL_meas := ADCBUF_PFC_IL\<rparr>\<rparr>;
        (pfcParam, events) \<leftarrow> PFC_StateMachine c x pfcParam;
        let (pfcParam, events) =
          (if DEBUG_BOOST c
           then (pfcParam\<lparr>duty := DEBUG_PFC_DUTY c\<rparr>, events @ [PFC_ENABLE_SIGNAL_set])
           else (pfcParam, events));
        Some (pfcParam, events @ [PFC_PWM_PDC_load (duty pfcParam), LED1_clear, ClearPFCADCIF])
      })"

text \<open>
  The contexts the running program can hold: \<open>PFC_ServiceInit\<close> initialises the
  global context, then every interrupt that returns replaces it.
\<close>

inductive reachable :: "PFC_CONFIG \<Rightarrow> PFC_EXTERN \<Rightarrow> PFC_T \<Rightarrow> bool"
  for c :: PFC_CONFIG and x :: PFC_EXTERN where
  reachable_init: "reachable c x (PFC_ParamsInit c pfcParam)"
| reachable_step: "reachable c x s \<Longrightarrow> PFC_ADCInterrupt c x adc s = Some (s', events)
                   \<Longrightarrow> reachable c x s'"

section \<open>Repeated calls\<close>

text \<open>A filter fed one sample per call; a trap ends the run.\<close>

fun PFC_Average_calls :: "PFC_EXTERN \<Rightarrow> PFC_AVG_T \<Rightarrow> int16_t list \<Rightarrow> PFC_AVG_T option" where
  "PFC_Average_calls x d [] = Some d"
| "PFC_Average_calls x d (v # vs) =
     (case PFC_Average x d v of None \<Rightarrow> None | Some d' \<Rightarrow> PFC_Average_calls x d' vs)"

fun PFC_SquaredRMSCalculate_calls ::
  "PFC_EXTERN \<Rightarrow> PFC_RMS_SQUARE_T \<Rightarrow> int16_t list \<Rightarrow> PFC_RMS_SQUARE_T option" where
  "PFC_SquaredRMSCalculate_calls x d [] = Some d"
| "PFC_SquaredRMSCalculate_calls x d (v # vs) =
     (case PFC_SquaredRMSCalculate x d v of
        None \<Rightarrow> None
      | Some d' \<Rightarrow> PFC_SquaredRMSCalculate_calls x d' vs)"

fun PFC_ADCInterrupt_calls ::
  "PFC_CONFIG \<Rightarrow> PFC_EXTERN \<Rightarrow> PFC_T \<Rightarrow> (int16_t \<times> int16_t \<times> int16_t) list \<Rightarrow> PFC_T option" where
  "PFC_ADCInterrupt_calls c x s [] = Some s"
| "PFC_ADCInterrupt_calls c x s (adc # adcs) =
     (case PFC_ADCInterrupt c x adc s of
        None \<Rightarrow> None
      | Some (s', events) \<Rightarrow> PFC_ADCInterrupt_calls c x s' adcs)"

text \<open>
  \<open>run_cycles c x s n s'\<close>: \<open>n\<close> consecutive interrupts, each entered in the run state
  and left in the run state (no fault detected), lead from \<open>s\<close> to \<open>s'\<close>.
\<close>

inductive run_cycles :: "PFC_CONFIG \<Rightarrow> PFC_EXTERN \<Rightarrow> PFC_T \<Rightarrow> nat \<Rightarrow> PFC_T \<Rightarrow> bool"
  for c :: PFC_CONFIG and x :: PFC_EXTERN where
  run_cycles_0: "run_cycles c x s 0 s"
| run_cycles_Suc: "run_cycles c x s n s1 \<Longrightarrow> state s1 = PFC_CTRL_RUN
                   \<Longrightarrow> PFC_ADCInterrupt c x adc s1 = Some (s2, events)
                   \<Longrightarrow> state s2 = PFC_CTRL_RUN \<Longrightarrow> run_cycles c x s (Suc n) s2"

section \<open>Conditions on the configuration\<close>

text \<open>The three window lengths are nonzero.\<close>

definition window_limits_nonzero :: "PFC_T \<Rightarrow> bool" where
  "window_limits_nonzero s \<longleftrightarrow>
     sampleLimit_avg (vdcAVG s) \<noteq> 0 \<and> sampleLimit_avg (vacAVG s) \<noteq> 0
     \<and> sampleLimit_rms (vacRMS s) \<noteq> 0"

text \<open>The fault constants are a zero value for "no fault" and three masks without a common bit.\<close>

definition fault_bits_disjoint :: "PFC_CONFIG \<Rightarrow> bool" where
  "fault_bits_disjoint c \<longleftrightarrow>
     PFC_FAULT_NONE c = 0
     \<and> PFC_FAULT_OP_OV c AND PFC_FAULT_IP_UV c = 0
     \<and> PFC_FAULT_OP_OV c AND PFC_FAULT_IP_OV c = 0
     \<and> PFC_FAULT_IP_UV c AND PFC_FAULT_IP_OV c = 0"

text \<open>The bitwise union of the fault masks selected by three flags.\<close>

definition fault_union :: "PFC_CONFIG \<Rightarrow> bool \<Rightarrow> bool \<Rightarrow> bool \<Rightarrow> uint16_t" where
  "fault_union c op_ov ip_uv ip_ov =
     (if op_ov then PFC_FAULT_OP_OV c else 0)
     OR (if ip_uv then PFC_FAULT_IP_UV c else 0)
     OR (if ip_ov then PFC_FAULT_IP_OV c else 0)"

definition fault_unions :: "PFC_CONFIG \<Rightarrow> uint16_t list" where
  "fault_unions c =
     [fault_union c a b d. a \<leftarrow> [False, True], b \<leftarrow> [False, True], d \<leftarrow> [False, True]]"

text \<open>The PI controller leaves the reference of the loop it is called for as it is.\<close>

definition PI_keeps_reference :: "PFC_EXTERN \<Rightarrow> bool" where
  "PI_keeps_reference x \<longleftrightarrow> (\<forall>p e. reference (PFC_PIController x p e) = reference p)"

section \<open>An instance of the parameters\<close>

text \<open>
  Modelled from the spec: the PI controller \<open>PFC_PIController\<close> is defined in a
  translation unit that is not among the sources.  After section 4.4 of the
  specification: proportional term \<open>(error * kp) >> kpScale\<close>, integral accumulator
  increased by \<open>(error * ki) >> kiScale\<close> and kept within the output bounds, output
  the sum of both clamped to \<open>[minOutput, maxOutput]\<close>, error and output stored in the
  structure.  It serves as one instance of the parameter \<open>PFC_PIController\<close> on
  which the theorems are evaluated; no theorem depends on it otherwise.
\<close>

definition PFC_PIController_spec :: "PFC_PI_T \<Rightarrow> int16_t \<Rightarrow> PFC_PI_T" where
  "PFC_PIController_spec pParam err =
     (let proportional = signed_drop_bit (unat (kpScale pParam)) (builtin_mulss err (kp pParam));
          integral = integralOut pParam
                       + signed_drop_bit (unat (kiScale pParam)) (builtin_mulss err (ki pParam));
          integral = (if scast (maxOutput pParam) <s integral then scast (maxOutput pParam)
                      else if integral <s scast (minOutput pParam) then scast (minOutput pParam)
                      else integral);
          total = proportional + integral;
          out = (if scast (maxOutput pParam) <s total then maxOutput pParam
                 else if total <s scast (minOutput pParam) then minOutput pParam
                 else ucast total)
      in pParam\<lparr>integralOut := integral, error_pi := err, output_pi := out\<rparr>)"

definition extern_example :: PFC_EXTERN where
  "extern_example =
     \<lparr>PFC_PIController = PFC_PIController_spec,
      PFC_MeasureCurrentInit = (\<lambda>m. m\<lparr>offset_meas := 0, status_meas := 0\<rparr>),
      PFC_MeasureCurrentOffset = (\<lambda>m. m\<lparr>offset_meas := iL_meas m, status_meas := 1\<rparr>),
      divf_overflow = (\<lambda>num den. 32767),
      divsd_overflow = (\<lambda>num den. 32767)\<rparr>"

definition config_example :: PFC_CONFIG where
  "config_example =
     \<lparr>PFC_RMS_SQUARE_COUNTMAX = 1, PFC_AVG_SCALER = 1, PFC_INPUT_FREQUENCY_COUNTER = 2,
      KP_I = 1000, KI_I = 100, KP_I_SCALE = 10, KI_I_SCALE = 10,
      KP_V = 2000, KI_V = 200, KP_V_SCALE = 10, KI_V_SCALE = 10,
      KI_I_INTGRAL_OUT_MAX = 30000, PFC_LOOPTIME_TCY = 2500,
      PFC_MAX_DUTY = 2375, PFC_MIN_DUTY = 25,
      PFC_OUPUT_VOLTAGE_REFERENCE = 20000, RAMP_COUNT = 30, RAMP_RATE = 2,
      PFC_MIN_CURRENTREF_PEAK_Q15 = 0, VOLTAGE_LOOP_EXE_RATE = 2, KMUL = 4096,
      PFC_OUTPUT_OVER_VOLTAGE_LIMIT = 30000,
      PFC_INPUT_UNDER_VOLTAGE_LIMIT_LO = 100, PFC_INPUT_UNDER_VOLTAGE_LIMIT_HI = 200,
      PFC_INPUT_OVER_VOLTAGE_LIMIT_LO = 20000, PFC_INPUT_OVER_VOLTAGE_LIMIT_HI = 25000,
      PFC_FAULT_NONE = 0, PFC_FAULT_OP_OV = 1, PFC_FAULT_IP_UV = 2, PFC_FAULT_IP_OV = 4,
      Q15_0_9999 = 32764, Q15_0_999 = 32734,
      ENABLE_PFC_CURRENT_OFFSET_CORRECTION = True, PFC_POWER_CONTROL = True,
      DEBUG_BOOST = False, DEBUG_PFC_DUTY = 0\<rparr>"

text \<open>The global context before \<open>PFC_ServiceInit\<close>: zero-initialised.\<close>

definition pi_zero :: PFC_PI_T where
  "pi_zero = \<lparr>kp = 0, ki = 0, kpScale = 0, kiScale = 0, integralOut = 0, minOutput = 0,
              maxOutput = 0, reference = 0, error_pi = 0, output_pi = 0\<rparr>"

definition avg_zero :: PFC_AVG_T where
  "avg_zero = \<lparr>sum_avg = 0, samples_avg = 0, sampleLimit_avg = 0, output_avg = 0,
               status_avg = 0, scaler = 0\<rparr>"

definition rms_zero :: PFC_RMS_SQUARE_T where
  "rms_zero = \<lparr>sum_rms = 0, samples_rms = 0, sampleLimit_rms = 0, sqrOutput = 0,
               status_rms = 0, peak = 0\<rparr>"

definition pfcParam_zero :: PFC_T where
  "pfcParam_zero =
     \<lparr>state = PFC_INIT,
      pfcCurrent = \<lparr>iL_meas = 0, offset_meas = 0, status_meas = 0\<rparr>,
      pfcVoltage = \<lparr>vdc = 0, vac = 0, offsetVac = 0\<rparr>,
      vdcAVG = avg_zero, vacAVG = avg_zero, vacRMS = rms_zero,
      piVoltage = pi_zero, piCurrent = pi_zero,
      rectifiedVac = 0, iL = 0, faultStatus = 0, duty = 0, boostDutyRatio = 0,
      currentReference = 0, averageCurrent = 0, rampRate = 0, voltLoopExeRate = 0,
      sampleCorrectionEnable = 0\<rparr>"

text \<open>
  A context in the run state, with a current reference far above the measured
  current and an integral accumulator close to its bound.
\<close>

definition run_example :: PFC_T where
  "run_example = (PFC_ParamsInit config_example pfcParam_zero)
      \<lparr>state := PFC_CTRL_RUN, currentReference := 20000, iL := 1000,
        piCurrent := (piCurrent (PFC_ParamsInit config_example pfcParam_zero))
                       \<lparr>integralOut := 29000\<rparr>\<rparr>"

text \<open>A context in the fault state with the input under-voltage bit set.\<close>

definition fault_example :: PFC_T where
  "fault_example = (PFC_ParamsInit config_example pfcParam_zero)
      \<lparr>state := PFC_FAULT, faultStatus := 2, duty := 1500,
        vacRMS := \<lparr>sum_rms = 0, samples_rms = 0, sampleLimit_rms = 1, sqrOutput = 300,
                   status_rms = 1, peak = 0\<rparr>,
        piCurrent := (piCurrent (PFC_ParamsInit config_example pfcParam_zero))
                       \<lparr>integralOut := 29000\<rparr>\<rparr>"

text \<open>
  The context on which the run state tests the fault status: the conditioned
  context with the offset-corrected current and the result of the fault check.
\<close>

definition run_entry :: "PFC_CONFIG \<Rightarrow> PFC_T \<Rightarrow> PFC_T" where
  "run_entry c s1 = PFC_FaultCheck c
      (if ENABLE_PFC_CURRENT_OFFSET_CORRECTION c
       then s1\<lparr>iL := iL_meas (pfcCurrent s1) - offset_meas (pfcCurrent s1)\<rparr>
       else s1)"

text \<open>
  A context in the run state with sample correction enabled, a DC-bus sample of 0,
  and a voltage reference 10 below the target.
\<close>

definition ctrl_run_example :: PFC_T where
  "ctrl_run_example = (PFC_ParamsInit config_example pfcParam_zero)
      \<lparr>state := PFC_CTRL_RUN, sampleCorrectionEnable := 1, boostDutyRatio := 16384,
        pfcVoltage := \<lparr>vdc = 0, vac = 4000, offsetVac = 0\<rparr>,
        pfcCurrent := \<lparr>iL_meas = 1000, offset_meas = 0, status_meas = 1\<rparr>,
        vdcAVG := \<lparr>sum_avg = 0, samples_avg = 0, sampleLimit_avg = 2, output_avg = 19000,
                   status_avg = 1, scaler = 1\<rparr>,
        vacRMS := \<lparr>sum_rms = 0, samples_rms = 0, sampleLimit_rms = 1, sqrOutput = 300,
                   status_rms = 1, peak = 0\<rparr>,
        piVoltage := (piVoltage (PFC_ParamsInit config_example pfcParam_zero))
                       \<lparr>reference := 19990\<rparr>,
        piCurrent := (piCurrent (PFC_ParamsInit config_example pfcParam_zero))
                       \<lparr>output_pi := 8192\<rparr>\<rparr>"

text \<open>A context whose AC sample lies 32768 below the AC average.\<close>

definition rect_example :: PFC_T where
  "rect_example = ctrl_run_example
      \<lparr>pfcVoltage := \<lparr>vdc = 19000, vac = - 16384, offsetVac = 0\<rparr>,
        vacAVG := \<lparr>sum_avg = 0, samples_avg = 0, sampleLimit_avg = 2, output_avg = 16384,
                   status_avg = 1, scaler = 0\<rparr>\<rparr>"

section \<open>Arithmetic of 16-bit and 32-bit values\<close>

lemma sint16_range: "- 32768 \<le> sint (w :: 16 word) \<and> sint w < 32768"
  using sint_ge [of w] sint_lt [of w] by simp

lemma sint16_succ: "sint (w :: 16 word) < 32767 \<Longrightarrow> sint (w + 1) = sint w + 1"
  using sint16_range [of w] by (simp add: sint_word_add signed_take_bit_int_eq_self_iff)

lemma unat_sint16: "0 \<le> sint (w :: 16 word) \<Longrightarrow> int (unat w) = sint w"
  using sint16_range [of w] by (simp add: uint_sint take_bit_int_eq_self)

lemma sint_scast_16_32: "sint (scast (v :: 16 word) :: 32 word) = sint v"
  by (simp add: sint_up_scast is_up)

lemma sint32_add:
  "- 2147483648 \<le> sint (a :: 32 word) + sint b \<Longrightarrow> sint a + sint b < 2147483648
     \<Longrightarrow> sint (a + b) = sint a + sint b"
  by (simp add: sint_word_add signed_take_bit_int_eq_self_iff)

lemma window_product_bound:
  fixes j v :: int
  assumes "0 \<le> j" "j \<le> 32768" "- 32768 \<le> v" "v < 32768"
  shows "- 1073741824 \<le> j * v \<and> j * v \<le> 1073741824"
proof -
  have "\<bar>j * v\<bar> = \<bar>j\<bar> * \<bar>v\<bar>" by (simp add: abs_mult)
  also have "\<dots> \<le> 32768 * 32768"
    using assms by (intro mult_mono) auto
  finally show ?thesis by (simp add: abs_le_iff)
qed

lemma sdiv_mult_self: "0 < (n :: int) \<Longrightarrow> (n * v) sdiv n = v"
  by (simp add: signed_divide_int_def sgn_mult abs_mult mult_sgn_abs)

lemma window_sum_step:
  assumes "0 \<le> sint (j :: 16 word)" "sint j < 32767"
    and "sint (s :: 32 word) = sint j * sint (V :: 16 word)"
  shows "sint (s + scast V) = (sint j + 1) * sint V"
proof -
  have b1: "- 1073741824 \<le> sint j * sint V \<and> sint j * sint V \<le> 1073741824"
    using assms sint16_range [of V] by (intro window_product_bound) auto
  have "sint (s + scast V) = sint s + sint (scast V :: 32 word)"
    using b1 assms(3) sint16_range [of V] by (intro sint32_add) (auto simp: sint_scast_16_32)
  then show ?thesis
    by (simp add: assms(3) sint_scast_16_32 algebra_simps)
qed

section \<open>The moving average filter\<close>

lemma PFC_Average_accumulate:
  assumes "0 \<le> sint (samples_avg d)" "sint (samples_avg d) + 1 < sint (sampleLimit_avg d)"
    and "sint (sum_avg d) = sint (samples_avg d) * sint V"
  shows "\<exists>d'. PFC_Average x d V = Some d' \<and> sampleLimit_avg d' = sampleLimit_avg d
           \<and> sint (samples_avg d') = sint (samples_avg d) + 1
           \<and> sint (sum_avg d') = sint (samples_avg d') * sint V
           \<and> status_avg d' = status_avg d \<and> output_avg d' = output_avg d"
proof -
  have lt: "sint (samples_avg d) < 32767"
    using assms(2) sint16_range [of "sampleLimit_avg d"] by simp
  have s1: "sint (samples_avg d + 1) = sint (samples_avg d) + 1"
    using lt by (rule sint16_succ)
  have s2: "sint (sum_avg d + scast V) = (sint (samples_avg d) + 1) * sint V"
    using assms(1) lt assms(3) by (rule window_sum_step)
  show ?thesis
    using assms(2) s1 s2 by (simp add: PFC_Average_def Let_def word_sle_eq)
qed

lemma PFC_Average_complete:
  assumes "0 \<le> sint (samples_avg d)" "sint (samples_avg d) + 1 = sint (sampleLimit_avg d)"
    and "sint (sum_avg d) = sint (samples_avg d) * sint V"
  shows "PFC_Average x d V =
           Some (d\<lparr>sum_avg := 0, samples_avg := 0, output_avg := V, status_avg := 1\<rparr>)"
proof -
  let ?n = "sint (sampleLimit_avg d)"
  have lt: "sint (samples_avg d) < 32767"
    using assms(2) sint16_range [of "sampleLimit_avg d"] by simp
  have s1: "sint (samples_avg d + 1) = ?n"
    using lt assms(2) by (simp add: sint16_succ)
  have s2: "sint (sum_avg d + scast V) = ?n * sint V"
    using window_sum_step [OF assms(1) lt assms(3)] assms(2) by simp
  have pos: "0 < ?n" using assms(1,2) by simp
  have nz: "sampleLimit_avg d \<noteq> 0" using pos by auto
  have q: "sint (sum_avg d + scast V) sdiv ?n = sint V"
    using pos by (simp add: s2 sdiv_mult_self)
  show ?thesis
    using s1 nz q sint16_range [of V]
    by (simp add: PFC_Average_def Let_def word_sle_eq builtin_divsd_def)
qed

lemma PFC_Average_calls_append:
  "PFC_Average_calls x d (vs @ ws) =
     (case PFC_Average_calls x d vs of None \<Rightarrow> None | Some d' \<Rightarrow> PFC_Average_calls x d' ws)"
  by (induction vs arbitrary: d) (auto split: option.splits)

lemma PFC_Average_calls_accumulate:
  assumes "0 \<le> sint (samples_avg d)" "sint (samples_avg d) + int k < sint (sampleLimit_avg d)"
    and "sint (sum_avg d) = sint (samples_avg d) * sint V"
  shows "\<exists>d'. PFC_Average_calls x d (replicate k V) = Some d'
           \<and> sampleLimit_avg d' = sampleLimit_avg d
           \<and> sint (samples_avg d') = sint (samples_avg d) + int k
           \<and> sint (sum_avg d') = sint (samples_avg d') * sint V
           \<and> status_avg d' = status_avg d \<and> output_avg d' = output_avg d"
  using assms
proof (induction k arbitrary: d)
  case 0
  then show ?case by simp
next
  case (Suc k)
  from Suc.prems obtain d1 where d1: "PFC_Average x d V = Some d1"
      "sampleLimit_avg d1 = sampleLimit_avg d" "sint (samples_avg d1) = sint (samples_avg d) + 1"
      "sint (sum_avg d1) = sint (samples_avg d1) * sint V"
      "status_avg d1 = status_avg d" "output_avg d1 = output_avg d"
    using PFC_Average_accumulate [of d V x] by auto
  have "\<exists>d'. PFC_Average_calls x d1 (replicate k V) = Some d'
           \<and> sampleLimit_avg d' = sampleLimit_avg d1
           \<and> sint (samples_avg d') = sint (samples_avg d1) + int k
           \<and> sint (sum_avg d') = sint (samples_avg d') * sint V
           \<and> status_avg d' = status_avg d1 \<and> output_avg d' = output_avg d1"
    using Suc.prems d1 by (intro Suc.IH) auto
  then show ?case using d1 by auto
qed

text \<open>
  C6.  Constant input \<open>V\<close>, window length \<open>N = sampleLimit \<ge> 1\<close>, filter reset (sum,
  samples and status 0): each of the first \<open>N - 1\<close> calls returns with the status still
  0, and the \<open>N\<close>-th call returns with output \<open>V\<close>, status 1, sum 0 and samples 0.
\<close>

theorem PFC_Average_constant_window:
  assumes "0 <s sampleLimit_avg d" "sum_avg d = 0" "samples_avg d = 0" "status_avg d = 0"
  shows "(\<forall>k < unat (sampleLimit_avg d).
            \<exists>d'. PFC_Average_calls x d (replicate k V) = Some d' \<and> status_avg d' = 0)
         \<and> (\<exists>d'. PFC_Average_calls x d (replicate (unat (sampleLimit_avg d)) V) = Some d'
              \<and> output_avg d' = V \<and> status_avg d' = 1 \<and> sum_avg d' = 0 \<and> samples_avg d' = 0)"
proof -
  let ?N = "sampleLimit_avg d"
  have pos: "0 < sint ?N" using assms(1) by (simp add: word_sless_alt)
  have un: "int (unat ?N) = sint ?N"
    using pos unat_sint16 [of ?N] by simp
  have part: "\<exists>d'. PFC_Average_calls x d (replicate k V) = Some d' \<and> sampleLimit_avg d' = ?N
           \<and> sint (samples_avg d') = int k \<and> sint (sum_avg d') = sint (samples_avg d') * sint V
           \<and> status_avg d' = 0 \<and> output_avg d' = output_avg d" if "k < unat ?N" for k
    using PFC_Average_calls_accumulate [of d k V x] that un assms by auto
  obtain m where m: "unat ?N = Suc m" using pos un by (cases "unat ?N") auto
  obtain d1 where d1: "PFC_Average_calls x d (replicate m V) = Some d1" "sampleLimit_avg d1 = ?N"
      "sint (samples_avg d1) = int m" "sint (sum_avg d1) = sint (samples_avg d1) * sint V"
    using part [of m] m by auto
  have "PFC_Average x d1 V
      = Some (d1\<lparr>sum_avg := 0, samples_avg := 0, output_avg := V, status_avg := 1\<rparr>)"
    using d1 m un by (intro PFC_Average_complete) auto
  then have "PFC_Average_calls x d (replicate (Suc m) V)
      = Some (d1\<lparr>sum_avg := 0, samples_avg := 0, output_avg := V, status_avg := 1\<rparr>)"
    using d1(1) unfolding replicate_Suc [of m V] replicate_append_same [symmetric]
    by (simp add: PFC_Average_calls_append)
  then show ?thesis using part m by auto
qed

theorem PFC_Average_constant_window_witness:
  "0 <s sampleLimit_avg (avg_zero\<lparr>sampleLimit_avg := 4\<rparr>)
   \<and> (\<exists>d'. PFC_Average_calls extern_example (avg_zero\<lparr>sampleLimit_avg := 4\<rparr>) (replicate 3 1000)
             = Some d' \<and> status_avg d' = 0)
   \<and> (\<exists>d'. PFC_Average_calls extern_example (avg_zero\<lparr>sampleLimit_avg := 4\<rparr>) (replicate 4 1000)
             = Some d'
         \<and> output_avg d' = 1000 \<and> status_avg d' = 1 \<and> sum_avg d' = 0 \<and> samples_avg d' = 0)"
  using PFC_Average_constant_window [of "avg_zero\<lparr>sampleLimit_avg := 4\<rparr>" extern_example 1000]
  by (simp add: avg_zero_def word_sless_alt)




section \<open>The mean-square accumulator\<close>

text \<open>
  C5.  Window length 4, accumulator reset, constant rectified input 16384 (its scaled
  square is 8192).  After 4 calls the window is not complete: status 0, output
  untouched, 4 samples counted and summed.  The 5th call completes it, and divides
  the sum of 5 scaled squares by 4: the output is 10240, not 8192.
\<close>

theorem PFC_SquaredRMSCalculate_window_off_by_one:
  "PFC_SquaredRMSCalculate_calls extern_example (rms_zero\<lparr>sampleLimit_rms := 4\<rparr>)
       (replicate 4 16384)
     = Some \<lparr>sum_rms = 32768, samples_rms = 4, sampleLimit_rms = 4, sqrOutput = 0,
             status_rms = 0, peak = 0\<rparr>
   \<and> PFC_SquaredRMSCalculate_calls extern_example (rms_zero\<lparr>sampleLimit_rms := 4\<rparr>)
       (replicate 5 16384)
     = Some \<lparr>sum_rms = 0, samples_rms = 0, sampleLimit_rms = 4, sqrOutput = 10240,
             status_rms = 1, peak = 0\<rparr>
   \<and> (ucast (signed_drop_bit 15 (builtin_mulss 16384 16384)) :: int16_t) = 8192"
  by code_simp

section \<open>The current loop\<close>

lemma mulss_sint: "sint (builtin_mulss a b) = sint a * sint b"
proof -
  have "\<bar>sint a * sint b\<bar> = \<bar>sint a\<bar> * \<bar>sint b\<bar>" by (simp add: abs_mult)
  also have "\<dots> \<le> 32768 * 32768"
    using sint16_range [of a] sint16_range [of b] by (intro mult_mono) auto
  finally have "- 1073741824 \<le> sint a * sint b \<and> sint a * sint b \<le> 1073741824"
    by (simp add: abs_le_iff)
  then show ?thesis
    by (simp add: builtin_mulss_def sint_word_mult sint_scast_16_32 signed_take_bit_int_eq_self_iff)
qed

lemma scaled_sint: "sint (signed_drop_bit 15 (builtin_mulss a b)) = (sint a * sint b) div 32768"
  by (simp add: sint_signed_drop_bit_eq mulss_sint drop_bit_eq_div)

lemma scaled_range:
  "- 32768 \<le> (sint (a :: 16 word) * sint (b :: 16 word)) div 32768
   \<and> (sint a * sint b) div 32768 \<le> 32768"
proof -
  have "\<bar>sint a * sint b\<bar> = \<bar>sint a\<bar> * \<bar>sint b\<bar>" by (simp add: abs_mult)
  also have "\<dots> \<le> 32768 * 32768"
    using sint16_range [of a] sint16_range [of b] by (intro mult_mono) auto
  finally have "- 1073741824 \<le> sint a * sint b \<and> sint a * sint b \<le> 1073741824"
    by (simp add: abs_le_iff)
  then show ?thesis by auto
qed

lemma scaled_duty_unat:
  assumes "0 \<le> (sint out * sint (PFC_LOOPTIME_TCY c)) div 32768"
  shows "int (unat (scaled_duty c out)) = (sint out * sint (PFC_LOOPTIME_TCY c)) div 32768"
proof -
  let ?w = "signed_drop_bit 15 (builtin_mulss out (PFC_LOOPTIME_TCY c))"
  let ?v = "(sint out * sint (PFC_LOOPTIME_TCY c)) div 32768"
  have sv: "sint ?w = ?v" by (rule scaled_sint)
  have r: "?v \<le> 32768" using scaled_range [of out "PFC_LOOPTIME_TCY c"] by simp
  have "uint (ucast ?w :: 16 word) = take_bit 16 (uint ?w)"
    by (simp add: unsigned_ucast_eq)
  also have "uint ?w = take_bit 32 (sint ?w)" by (simp add: uint_sint)
  also have "\<dots> = ?v" using assms r by (simp add: sv take_bit_int_eq_self)
  also have "take_bit 16 ?v = ?v" using assms r by (simp add: take_bit_int_eq_self)
  finally show ?thesis by (simp add: scaled_duty_def)
qed

lemma scaled_duty_exceeds:
  assumes "int (unat M) < (sint out * sint (PFC_LOOPTIME_TCY c)) div 32768"
  shows "M < scaled_duty c out"
proof -
  have "0 \<le> (sint out * sint (PFC_LOOPTIME_TCY c)) div 32768"
    using assms by linarith
  then have "int (unat (scaled_duty c out)) = (sint out * sint (PFC_LOOPTIME_TCY c)) div 32768"
    by (rule scaled_duty_unat)
  with assms show ?thesis by (simp add: word_less_def)
qed

lemma signed_positive_nonzero: "0 <s (d :: 16 word) \<Longrightarrow> d \<noteq> 0"
  by (auto simp: word_sless_alt)

lemma builtin_divf_total: "den \<noteq> 0 \<Longrightarrow> \<exists>q. builtin_divf ovf num den = Some q"
  by (simp add: builtin_divf_def)

lemma PFC_CurrentSampleCorrection_total: "\<exists>a. PFC_CurrentSampleCorrection c x s = Some a"
proof (cases "0 <s boostDutyRatio s")
  case True
  then obtain q where
    "builtin_divf (divf_overflow x) (output_pi (piCurrent s)) (boostDutyRatio s) = Some q"
    using builtin_divf_total signed_positive_nonzero by blast
  with True show ?thesis by (simp add: PFC_CurrentSampleCorrection_def)
next
  case False
  then show ?thesis by (simp add: PFC_CurrentSampleCorrection_def)
qed

text \<open>The current loop with the average current \<open>a\<close> it has computed.\<close>

lemma PFC_CurrentControlLoop_unfold:
  "\<exists>a. PFC_CurrentControlLoop c x s =
     (let s1 = (if iL s <s 0 then s\<lparr>iL := 1\<rparr> else s)\<lparr>averageCurrent := a\<rparr>;
          s2 = s1\<lparr>piCurrent := PFC_PIController x (piCurrent s1)
                                  (currentReference s1 - averageCurrent s1)\<rparr>;
          duty' = scaled_duty c (output_pi (piCurrent s2))
      in Some (if PFC_MAX_DUTY c < duty'
           then s2\<lparr>duty := PFC_MAX_DUTY c,
                   piCurrent := (piCurrent s2)\<lparr>integralOut := KI_I_INTGRAL_OUT_MAX c\<rparr>\<rparr>
           else if duty' < PFC_MIN_DUTY c
           then s2\<lparr>duty := PFC_MIN_DUTY c\<rparr>
           else s2\<lparr>duty := duty'\<rparr>))"
proof -
  let ?s0 = "if iL s <s 0 then s\<lparr>iL := 1\<rparr> else s"
  show ?thesis
  proof (cases "sampleCorrectionEnable ?s0 = 1")
    case True
    obtain a where "PFC_CurrentSampleCorrection c x ?s0 = Some a"
      using PFC_CurrentSampleCorrection_total by blast
    with True show ?thesis
      by (intro exI [of _ a]) (simp add: PFC_CurrentControlLoop_def Let_def)
  next
    case False
    then show ?thesis
      by (intro exI [of _ "iL ?s0"]) (simp add: PFC_CurrentControlLoop_def Let_def)
  qed
qed

text \<open>
  C1.  With \<open>PFC_MIN_DUTY \<le> PFC_MAX_DUTY\<close>, the current loop returns for every context
  and every PI controller, and the duty it stores lies in
  \<open>[PFC_MIN_DUTY, PFC_MAX_DUTY]\<close>.  Whenever the scaled PI output exceeds
  \<open>PFC_MAX_DUTY\<close> (as the 16-bit local \<open>duty\<close>, or as the 32-bit value before it is
  stored there), the integral accumulator of the current loop is
  \<open>KI_I_INTGRAL_OUT_MAX\<close> on return and the duty is \<open>PFC_MAX_DUTY\<close>.
\<close>

theorem PFC_CurrentControlLoop_duty:
  assumes "PFC_MIN_DUTY c \<le> PFC_MAX_DUTY c"
  shows "\<exists>s'. PFC_CurrentControlLoop c x s = Some s'
           \<and> PFC_MIN_DUTY c \<le> duty s' \<and> duty s' \<le> PFC_MAX_DUTY c
           \<and> (PFC_MAX_DUTY c < scaled_duty c (output_pi (piCurrent s'))
                \<longrightarrow> integralOut (piCurrent s') = KI_I_INTGRAL_OUT_MAX c
                    \<and> duty s' = PFC_MAX_DUTY c)
           \<and> (int (unat (PFC_MAX_DUTY c))
                  < (sint (output_pi (piCurrent s')) * sint (PFC_LOOPTIME_TCY c)) div 32768
                \<longrightarrow> integralOut (piCurrent s') = KI_I_INTGRAL_OUT_MAX c
                    \<and> duty s' = PFC_MAX_DUTY c)"
proof -
  obtain a where u: "PFC_CurrentControlLoop c x s =
     (let s1 = (if iL s <s 0 then s\<lparr>iL := 1\<rparr> else s)\<lparr>averageCurrent := a\<rparr>;
          s2 = s1\<lparr>piCurrent := PFC_PIController x (piCurrent s1)
                                  (currentReference s1 - averageCurrent s1)\<rparr>;
          duty' = scaled_duty c (output_pi (piCurrent s2))
      in Some (if PFC_MAX_DUTY c < duty'
           then s2\<lparr>duty := PFC_MAX_DUTY c,
                   piCurrent := (piCurrent s2)\<lparr>integralOut := KI_I_INTGRAL_OUT_MAX c\<rparr>\<rparr>
           else if duty' < PFC_MIN_DUTY c
           then s2\<lparr>duty := PFC_MIN_DUTY c\<rparr>
           else s2\<lparr>duty := duty'\<rparr>))"
    using PFC_CurrentControlLoop_unfold by blast
  obtain s' where s': "PFC_CurrentControlLoop c x s = Some s'"
    using u by (simp add: Let_def)
  have main: "PFC_MIN_DUTY c \<le> duty s' \<and> duty s' \<le> PFC_MAX_DUTY c
           \<and> (PFC_MAX_DUTY c < scaled_duty c (output_pi (piCurrent s'))
                \<longrightarrow> integralOut (piCurrent s') = KI_I_INTGRAL_OUT_MAX c
                    \<and> duty s' = PFC_MAX_DUTY c)"
    using u s' assms by (auto simp: Let_def split: if_splits)
  then show ?thesis
    using s' scaled_duty_exceeds [of "PFC_MAX_DUTY c" "output_pi (piCurrent s')" c]
    by blast
qed

theorem PFC_CurrentControlLoop_duty_witness:
  "PFC_MIN_DUTY config_example \<le> PFC_MAX_DUTY config_example
   \<and> (\<exists>s'. PFC_CurrentControlLoop config_example extern_example run_example = Some s'
         \<and> PFC_MIN_DUTY config_example \<le> duty s' \<and> duty s' \<le> PFC_MAX_DUTY config_example
         \<and> PFC_MAX_DUTY config_example < scaled_duty config_example (output_pi (piCurrent s'))
         \<and> integralOut (piCurrent s') = KI_I_INTGRAL_OUT_MAX config_example
         \<and> duty s' = PFC_MAX_DUTY config_example)"
proof -
  have h: "PFC_MIN_DUTY config_example \<le> PFC_MAX_DUTY config_example"
    by (simp add: config_example_def)
  have e: "PFC_MAX_DUTY config_example
      < scaled_duty config_example
          (output_pi (piCurrent
             (the (PFC_CurrentControlLoop config_example extern_example run_example))))"
    by code_simp
  show ?thesis
    using h e PFC_CurrentControlLoop_duty [OF h, of extern_example run_example] by auto
qed

section \<open>The state machine\<close>

lemma builtin_divsd_total: "den \<noteq> 0 \<Longrightarrow> \<exists>q. builtin_divsd ovf num den = Some q"
  by (simp add: builtin_divsd_def Let_def)

lemma PFC_Average_total:
  assumes "sampleLimit_avg d \<noteq> 0"
  shows "\<exists>d'. PFC_Average x d v = Some d' \<and> sampleLimit_avg d' = sampleLimit_avg d"
proof -
  obtain q where "builtin_divsd (divsd_overflow x) (sum_avg d + scast v) (sampleLimit_avg d) = Some q"
    using assms builtin_divsd_total by blast
  then show ?thesis by (simp add: PFC_Average_def Let_def)
qed

lemma PFC_SquaredRMSCalculate_total:
  assumes "sampleLimit_rms d \<noteq> 0"
  shows "\<exists>d'. PFC_SquaredRMSCalculate x d v = Some d' \<and> sampleLimit_rms d' = sampleLimit_rms d"
proof -
  obtain q where "builtin_divsd (divsd_overflow x)
      (sum_rms d + scast (ucast (signed_drop_bit 15 (builtin_mulss v v)) :: int16_t)) (sampleLimit_rms d) = Some q"
    using assms builtin_divsd_total by blast
  then show ?thesis by (simp add: PFC_SquaredRMSCalculate_def Let_def)
qed

lemma PFC_StateMachine_conditioning_shape:
  assumes "PFC_StateMachine_conditioning x s = Some s1"
  shows "\<exists>a b r. s1 = s\<lparr>vdcAVG := a, vacAVG := b,
                        pfcVoltage := (pfcVoltage s)\<lparr>offsetVac := output_avg b\<rparr>,
                        rectifiedVac := PFC_SignalRectification ((pfcVoltage s)\<lparr>offsetVac := output_avg b\<rparr>),
                        vacRMS := r\<rparr>
            \<and> PFC_Average x (vdcAVG s) (vdc (pfcVoltage s)) = Some a
            \<and> PFC_Average x (vacAVG s) (vac (pfcVoltage s)) = Some b
            \<and> PFC_SquaredRMSCalculate x (vacRMS s)
                 (PFC_SignalRectification ((pfcVoltage s)\<lparr>offsetVac := output_avg b\<rparr>)) = Some r"
  using assms
  by (auto simp: PFC_StateMachine_conditioning_def Let_def split: Option.bind_splits)

lemma PFC_StateMachine_conditioning_total:
  assumes "window_limits_nonzero s"
  shows "\<exists>s1. PFC_StateMachine_conditioning x s = Some s1 \<and> window_limits_nonzero s1"
proof -
  obtain a where a: "PFC_Average x (vdcAVG s) (vdc (pfcVoltage s)) = Some a"
      "sampleLimit_avg a = sampleLimit_avg (vdcAVG s)"
    using assms PFC_Average_total [of "vdcAVG s"] by (auto simp: window_limits_nonzero_def)
  obtain b where b: "PFC_Average x (vacAVG s) (vac (pfcVoltage s)) = Some b"
      "sampleLimit_avg b = sampleLimit_avg (vacAVG s)"
    using assms PFC_Average_total [of "vacAVG s"] by (auto simp: window_limits_nonzero_def)
  obtain r where r: "PFC_SquaredRMSCalculate x (vacRMS s)
                 (PFC_SignalRectification ((pfcVoltage s)\<lparr>offsetVac := output_avg b\<rparr>)) = Some r"
      "sampleLimit_rms r = sampleLimit_rms (vacRMS s)"
    using assms PFC_SquaredRMSCalculate_total [of "vacRMS s"] by (auto simp: window_limits_nonzero_def)
  show ?thesis
    using a b r assms
    by (simp add: PFC_StateMachine_conditioning_def Let_def window_limits_nonzero_def)
qed

text \<open>
  C10.  When the 16-bit difference \<open>vac - offsetVac\<close> is \<open>-32768\<close>, its negation wraps
  around to \<open>-32768\<close> again and the rectifier returns that negative value; in the
  state machine, where the offset is the output of the AC moving average, this
  negative value is stored as the rectified voltage and is the sample handed to the
  mean-square accumulator.
\<close>

theorem PFC_SignalRectification_negative:
  "(vac v - offsetVac v = - 32768
      \<longrightarrow> PFC_SignalRectification v = - 32768 \<and> PFC_SignalRectification v <s 0)
   \<and> (PFC_StateMachine_conditioning x s = Some s'
        \<and> vac (pfcVoltage s) - output_avg (vacAVG s') = - 32768
      \<longrightarrow> rectifiedVac s' = - 32768 \<and> rectifiedVac s' <s 0
          \<and> PFC_SquaredRMSCalculate x (vacRMS s) (- 32768) = Some (vacRMS s'))"
proof (intro conjI impI)
  assume "vac v - offsetVac v = - 32768"
  then show "PFC_SignalRectification v = - 32768" "PFC_SignalRectification v <s 0"
    by (simp_all add: PFC_SignalRectification_def Let_def word_sless_alt)
next
  assume a: "PFC_StateMachine_conditioning x s = Some s'
        \<and> vac (pfcVoltage s) - output_avg (vacAVG s') = - 32768"
  then obtain a' b r where s': "s' = s\<lparr>vdcAVG := a', vacAVG := b,
                        pfcVoltage := (pfcVoltage s)\<lparr>offsetVac := output_avg b\<rparr>,
                        rectifiedVac := PFC_SignalRectification ((pfcVoltage s)\<lparr>offsetVac := output_avg b\<rparr>),
                        vacRMS := r\<rparr>"
      and r: "PFC_SquaredRMSCalculate x (vacRMS s)
                 (PFC_SignalRectification ((pfcVoltage s)\<lparr>offsetVac := output_avg b\<rparr>)) = Some r"
    using PFC_StateMachine_conditioning_shape [of x s s'] by blast
  have d: "vac (pfcVoltage s) - output_avg b = - 32768" using a by (simp add: s')
  then have v: "PFC_SignalRectification ((pfcVoltage s)\<lparr>offsetVac := output_avg b\<rparr>) = - 32768"
    by (simp add: PFC_SignalRectification_def Let_def word_sless_alt)
  show "rectifiedVac s' = - 32768" using v by (simp add: s')
  then show "rectifiedVac s' <s 0" by (simp add: word_sless_alt)
  show "PFC_SquaredRMSCalculate x (vacRMS s) (- 32768) = Some (vacRMS s')"
    using r v by (simp add: s')
qed

theorem PFC_SignalRectification_negative_witness:
  "vac \<lparr>vdc = 0, vac = - 16384, offsetVac = 16384\<rparr>
       - offsetVac \<lparr>vdc = 0, vac = - 16384, offsetVac = 16384\<rparr> = (- 32768 :: int16_t)
   \<and> sint (PFC_SignalRectification \<lparr>vdc = 0, vac = - 16384, offsetVac = 16384\<rparr>) = - 32768
   \<and> (\<exists>s'. PFC_StateMachine_conditioning extern_example rect_example = Some s'
         \<and> vac (pfcVoltage rect_example) - output_avg (vacAVG s') = - 32768
         \<and> sint (rectifiedVac s') = - 32768
         \<and> PFC_SquaredRMSCalculate extern_example (vacRMS rect_example) (- 32768) = Some (vacRMS s')
         \<and> sint (sum_rms (vacRMS s')) = - 32768)"
proof -
  define s' where "s' = the (PFC_StateMachine_conditioning extern_example rect_example)"
  have "PFC_StateMachine_conditioning extern_example rect_example \<noteq> None" by code_simp
  then have r: "PFC_StateMachine_conditioning extern_example rect_example = Some s'"
    by (auto simp: s'_def)
  have d: "vac (pfcVoltage rect_example) - output_avg (vacAVG s') = - 32768"
    unfolding s'_def by code_simp
  have su: "sint (sum_rms (vacRMS s')) = - 32768" unfolding s'_def by code_simp
  have d0: "vac \<lparr>vdc = 0, vac = - 16384, offsetVac = 16384\<rparr>
       - offsetVac \<lparr>vdc = 0, vac = - 16384, offsetVac = 16384\<rparr> = (- 32768 :: int16_t)"
    by simp
  note t = PFC_SignalRectification_negative [of "\<lparr>vdc = 0, vac = - 16384, offsetVac = 16384\<rparr>" extern_example rect_example s']
  have t1: "PFC_SignalRectification \<lparr>vdc = 0, vac = - 16384, offsetVac = 16384\<rparr> = - 32768"
    using t d0 by blast
  have t2: "rectifiedVac s' = - 32768
      \<and> PFC_SquaredRMSCalculate extern_example (vacRMS rect_example) (- 32768) = Some (vacRMS s')"
    using t r d by blast
  show ?thesis using d0 t1 t2 r d su by simp
qed

lemma PFC_StateMachine_FAULT_unfold:
  assumes "state s = PFC_FAULT"
  shows "PFC_StateMachine c x s =
     (case PFC_StateMachine_conditioning x s of
        None \<Rightarrow> None
      | Some s1 \<Rightarrow> Some ((fst (PFC_StateMachine_FAULT c s1))\<lparr>state := fst (snd (PFC_StateMachine_FAULT c s1))\<rparr>,
                        snd (snd (PFC_StateMachine_FAULT c s1))))"
  using assms by (simp add: PFC_StateMachine_def Let_def split_beta split: option.splits)


lemma and_not_disjoint:
  fixes u v :: "'a::len word"
  assumes "u AND v = 0"
  shows "u AND NOT v = u"
proof (rule bit_eqI)
  fix n
  have "\<not> (bit u n \<and> bit v n)"
    using assms by (metis bit_and_iff bit_0_eq bot_apply bot_bool_def)
  then show "bit (u AND NOT v) n \<longleftrightarrow> bit u n"
    by (auto simp: bit_and_iff bit_not_iff dest: bit_imp_possible_bit)
qed

lemma clear_mask_keeps_other:
  fixes a u v :: "'a::len word"
  assumes "u AND v = 0"
  shows "(a AND NOT v) AND u = a AND u"
proof -
  have "(a AND NOT v) AND u = a AND (u AND NOT v)" by (simp add: ac_simps)
  then show ?thesis by (simp add: and_not_disjoint [OF assms])
qed

lemma clear_mask_clears:
  fixes a u :: "'a::len word"
  shows "(a AND NOT u) AND u = 0"
  by (simp add: and.assoc)


lemma PFC_StateMachine_FAULT_status:
  "faultStatus (fst (PFC_StateMachine_FAULT c s1)) =
     (faultStatus s1
        AND NOT (if PFC_INPUT_UNDER_VOLTAGE_LIMIT_HI c \<le>s sqrOutput (vacRMS s1)
                 then PFC_FAULT_IP_UV c else 0))
        AND NOT (if sqrOutput (vacRMS s1) <s PFC_INPUT_OVER_VOLTAGE_LIMIT_LO c
                 then PFC_FAULT_IP_OV c else 0)"
  by (simp add: PFC_StateMachine_FAULT_def Let_def)

lemma PFC_StateMachine_FAULT_frame:
  "duty (fst (PFC_StateMachine_FAULT c s1)) = 0
   \<and> vacRMS (fst (PFC_StateMachine_FAULT c s1)) = vacRMS s1
   \<and> vdcAVG (fst (PFC_StateMachine_FAULT c s1)) = vdcAVG s1"
  by (simp add: PFC_StateMachine_FAULT_def Let_def)

lemma PFC_StateMachine_FAULT_exit:
  "(if faultStatus (fst (PFC_StateMachine_FAULT c s1)) = PFC_FAULT_NONE c
    then integralOut (piVoltage (fst (PFC_StateMachine_FAULT c s1))) = 0
       \<and> integralOut (piCurrent (fst (PFC_StateMachine_FAULT c s1))) = 0
       \<and> reference (piVoltage (fst (PFC_StateMachine_FAULT c s1))) = output_avg (vdcAVG s1)
       \<and> fst (snd (PFC_StateMachine_FAULT c s1)) = PFC_CTRL_RUN
       \<and> snd (snd (PFC_StateMachine_FAULT c s1))
           = [HAL_PFCPWMDisableOutputs, HAL_PFCPWMEnableOutputs]
    else fst (snd (PFC_StateMachine_FAULT c s1)) = PFC_FAULT
       \<and> snd (snd (PFC_StateMachine_FAULT c s1)) = [HAL_PFCPWMDisableOutputs]
       \<and> piVoltage (fst (PFC_StateMachine_FAULT c s1)) = piVoltage s1
       \<and> piCurrent (fst (PFC_StateMachine_FAULT c s1)) = piCurrent s1)"
  by (simp add: PFC_StateMachine_FAULT_def Let_def)

lemma fault_clear_under_voltage:
  fixes a u v :: "16 word"
  assumes "u AND v = 0"
  shows "((a AND NOT (if P then u else 0)) AND NOT (if Q then v else 0)) AND u = 0
           \<longleftrightarrow> a AND u = 0 \<or> P"
proof (cases P)
  case True
  have "((a AND NOT u) AND NOT (if Q then v else 0)) AND u
      = ((a AND NOT (if Q then v else 0)) AND NOT u) AND u" by (simp add: ac_simps)
  then show ?thesis using True by (simp add: clear_mask_clears)
next
  case False
  then show ?thesis using clear_mask_keeps_other [OF assms, of a] by simp
qed

lemma fault_clear_over_voltage:
  fixes a u v :: "16 word"
  assumes "u AND v = 0"
  shows "((a AND NOT (if P then u else 0)) AND NOT (if Q then v else 0)) AND v = 0
           \<longleftrightarrow> a AND v = 0 \<or> Q"
proof (cases Q)
  case True
  then show ?thesis by (simp add: clear_mask_clears)
next
  case False
  have "v AND u = 0" using assms by (simp add: ac_simps)
  then show ?thesis using False clear_mask_keeps_other [of v u a] by simp
qed

text \<open>
  C2.  A cycle entered in the fault state with nonzero window lengths returns; it
  stores duty 0 and first switches the PWM outputs off.  The new fault status is the
  old one with the input under-voltage mask cleared when the mean square is at least
  the recovery-high threshold and the input over-voltage mask cleared when the mean
  square is below the recovery-low threshold; when the two masks share no bit, each
  of them is clear afterwards exactly when it was clear before or its recovery
  condition holds.  When the new status equals \<open>PFC_FAULT_NONE\<close>, both integral
  accumulators are 0, the voltage reference is the DC-bus average, the state is the
  run state and the outputs are switched on again; otherwise the state stays the
  fault state and the outputs stay off.
\<close>

theorem PFC_StateMachine_fault_cycle:
  assumes "state s = PFC_FAULT" "window_limits_nonzero s"
  shows "\<exists>s' events. PFC_StateMachine c x s = Some (s', events)
     \<and> duty s' = 0 \<and> hd events = HAL_PFCPWMDisableOutputs
     \<and> faultStatus s' =
         (faultStatus s
            AND NOT (if PFC_INPUT_UNDER_VOLTAGE_LIMIT_HI c \<le>s sqrOutput (vacRMS s')
                     then PFC_FAULT_IP_UV c else 0))
            AND NOT (if sqrOutput (vacRMS s') <s PFC_INPUT_OVER_VOLTAGE_LIMIT_LO c
                     then PFC_FAULT_IP_OV c else 0)
     \<and> (PFC_FAULT_IP_UV c AND PFC_FAULT_IP_OV c = 0 \<longrightarrow>
          (faultStatus s' AND PFC_FAULT_IP_UV c = 0
             \<longleftrightarrow> faultStatus s AND PFC_FAULT_IP_UV c = 0
                 \<or> PFC_INPUT_UNDER_VOLTAGE_LIMIT_HI c \<le>s sqrOutput (vacRMS s'))
        \<and> (faultStatus s' AND PFC_FAULT_IP_OV c = 0
             \<longleftrightarrow> faultStatus s AND PFC_FAULT_IP_OV c = 0
                 \<or> sqrOutput (vacRMS s') <s PFC_INPUT_OVER_VOLTAGE_LIMIT_LO c))
     \<and> (if faultStatus s' = PFC_FAULT_NONE c
         then integralOut (piVoltage s') = 0 \<and> integralOut (piCurrent s') = 0
            \<and> reference (piVoltage s') = output_avg (vdcAVG s')
            \<and> state s' = PFC_CTRL_RUN
            \<and> events = [HAL_PFCPWMDisableOutputs, HAL_PFCPWMEnableOutputs]
         else state s' = PFC_FAULT \<and> events = [HAL_PFCPWMDisableOutputs])"
proof -
  obtain s1 where s1: "PFC_StateMachine_conditioning x s = Some s1"
    using assms(2) PFC_StateMachine_conditioning_total by blast
  have fs1: "faultStatus s1 = faultStatus s"
    using PFC_StateMachine_conditioning_shape [OF s1] by auto
  let ?r = "PFC_StateMachine_FAULT c s1"
  let ?s' = "(fst ?r)\<lparr>state := fst (snd ?r)\<rparr>"
  have run: "PFC_StateMachine c x s = Some (?s', snd (snd ?r))"
    using assms(1) s1 by (simp add: PFC_StateMachine_FAULT_unfold)
  have st: "faultStatus ?s' =
         (faultStatus s
            AND NOT (if PFC_INPUT_UNDER_VOLTAGE_LIMIT_HI c \<le>s sqrOutput (vacRMS ?s')
                     then PFC_FAULT_IP_UV c else 0))
            AND NOT (if sqrOutput (vacRMS ?s') <s PFC_INPUT_OVER_VOLTAGE_LIMIT_LO c
                     then PFC_FAULT_IP_OV c else 0)"
    using PFC_StateMachine_FAULT_status [of c s1] PFC_StateMachine_FAULT_frame [of c s1] fs1
    by simp
  have bits: "(faultStatus ?s' AND PFC_FAULT_IP_UV c = 0
             \<longleftrightarrow> faultStatus s AND PFC_FAULT_IP_UV c = 0
                 \<or> PFC_INPUT_UNDER_VOLTAGE_LIMIT_HI c \<le>s sqrOutput (vacRMS ?s'))
        \<and> (faultStatus ?s' AND PFC_FAULT_IP_OV c = 0
             \<longleftrightarrow> faultStatus s AND PFC_FAULT_IP_OV c = 0
                 \<or> sqrOutput (vacRMS ?s') <s PFC_INPUT_OVER_VOLTAGE_LIMIT_LO c)"
    if d: "PFC_FAULT_IP_UV c AND PFC_FAULT_IP_OV c = 0"
    unfolding st using fault_clear_under_voltage [OF d] fault_clear_over_voltage [OF d] by blast
  have ex: "if faultStatus ?s' = PFC_FAULT_NONE c
         then integralOut (piVoltage ?s') = 0 \<and> integralOut (piCurrent ?s') = 0
            \<and> reference (piVoltage ?s') = output_avg (vdcAVG ?s')
            \<and> state ?s' = PFC_CTRL_RUN
            \<and> snd (snd ?r) = [HAL_PFCPWMDisableOutputs, HAL_PFCPWMEnableOutputs]
         else state ?s' = PFC_FAULT \<and> snd (snd ?r) = [HAL_PFCPWMDisableOutputs]"
    using PFC_StateMachine_FAULT_exit [of c s1] PFC_StateMachine_FAULT_frame [of c s1]
    by (simp split: if_splits)
  have hd: "hd (snd (snd ?r)) = HAL_PFCPWMDisableOutputs"
    using ex by (simp split: if_splits)
  have dz: "duty ?s' = 0"
    using PFC_StateMachine_FAULT_frame [of c s1] by simp
  show ?thesis
    using run dz hd st bits ex by blast
qed


theorem PFC_StateMachine_fault_cycle_witness:
  "state fault_example = PFC_FAULT \<and> window_limits_nonzero fault_example
   \<and> PFC_FAULT_IP_UV config_example AND PFC_FAULT_IP_OV config_example = 0
   \<and> faultStatus fault_example AND PFC_FAULT_IP_UV config_example \<noteq> 0
   \<and> (\<exists>s' events. PFC_StateMachine config_example extern_example fault_example = Some (s', events)
         \<and> duty s' = 0
         \<and> PFC_INPUT_UNDER_VOLTAGE_LIMIT_HI config_example \<le>s sqrOutput (vacRMS s')
         \<and> faultStatus s' AND PFC_FAULT_IP_UV config_example = 0
         \<and> faultStatus s' = PFC_FAULT_NONE config_example
         \<and> integralOut (piVoltage s') = 0 \<and> integralOut (piCurrent s') = 0
         \<and> reference (piVoltage s') = output_avg (vdcAVG s')
         \<and> state s' = PFC_CTRL_RUN
         \<and> events = [HAL_PFCPWMDisableOutputs, HAL_PFCPWMEnableOutputs])"
proof -
  have h1: "state fault_example = PFC_FAULT" by code_simp
  have h2: "window_limits_nonzero fault_example" by code_simp
  have h3: "PFC_FAULT_IP_UV config_example AND PFC_FAULT_IP_OV config_example = 0" by code_simp
  have h4: "faultStatus fault_example AND PFC_FAULT_IP_UV config_example \<noteq> 0" by code_simp
  have e1: "faultStatus (fst (the (PFC_StateMachine config_example extern_example fault_example)))
              = PFC_FAULT_NONE config_example"
    by code_simp
  have e2: "PFC_INPUT_UNDER_VOLTAGE_LIMIT_HI config_example
       \<le>s sqrOutput (vacRMS (fst (the (PFC_StateMachine config_example extern_example fault_example))))"
    by code_simp
  obtain s' events where r: "PFC_StateMachine config_example extern_example fault_example = Some (s', events)"
     "duty s' = 0"
     "PFC_FAULT_IP_UV config_example AND PFC_FAULT_IP_OV config_example = 0 \<longrightarrow>
          (faultStatus s' AND PFC_FAULT_IP_UV config_example = 0
             \<longleftrightarrow> faultStatus fault_example AND PFC_FAULT_IP_UV config_example = 0
                 \<or> PFC_INPUT_UNDER_VOLTAGE_LIMIT_HI config_example \<le>s sqrOutput (vacRMS s'))
        \<and> (faultStatus s' AND PFC_FAULT_IP_OV config_example = 0
             \<longleftrightarrow> faultStatus fault_example AND PFC_FAULT_IP_OV config_example = 0
                 \<or> sqrOutput (vacRMS s') <s PFC_INPUT_OVER_VOLTAGE_LIMIT_LO config_example)"
     "if faultStatus s' = PFC_FAULT_NONE config_example
         then integralOut (piVoltage s') = 0 \<and> integralOut (piCurrent s') = 0
            \<and> reference (piVoltage s') = output_avg (vdcAVG s')
            \<and> state s' = PFC_CTRL_RUN
            \<and> events = [HAL_PFCPWMDisableOutputs, HAL_PFCPWMEnableOutputs]
         else state s' = PFC_FAULT \<and> events = [HAL_PFCPWMDisableOutputs]"
    using PFC_StateMachine_fault_cycle [OF h1 h2, of config_example extern_example] by blast
  have f1: "faultStatus s' = PFC_FAULT_NONE config_example" using e1 r(1) by simp
  have f2: "PFC_INPUT_UNDER_VOLTAGE_LIMIT_HI config_example \<le>s sqrOutput (vacRMS s')"
    using e2 r(1) by simp
  show ?thesis
    using h1 h2 h3 h4 r f1 f2 by auto
qed

lemma PFC_FaultCheck_frame:
  "PFC_FaultCheck c s = s\<lparr>faultStatus := faultStatus (PFC_FaultCheck c s)\<rparr>"
  by (simp add: PFC_FaultCheck_def Let_def)

lemma PFC_StateMachine_softStart_frame:
  "PFC_StateMachine_softStart c s =
     s\<lparr>piVoltage := (piVoltage s)\<lparr>reference := reference (piVoltage (PFC_StateMachine_softStart c s))\<rparr>,
       rampRate := rampRate (PFC_StateMachine_softStart c s)\<rparr>"
  by (simp add: PFC_StateMachine_softStart_def)

lemma PFC_CurrentRefGenerate_frame:
  assumes "PFC_CurrentRefGenerate c x s = Some s'"
  shows "s' = s\<lparr>piVoltage := piVoltage s', voltLoopExeRate := voltLoopExeRate s',
                 currentReference := currentReference s'\<rparr>
           \<and> (PI_keeps_reference x \<longrightarrow> reference (piVoltage s') = reference (piVoltage s))"
proof -
  define s0 where "s0 =
       (if VOLTAGE_LOOP_EXE_RATE c <s voltLoopExeRate s
        then let pv = piVoltage s;
                 pv = pv\<lparr>error_pi := reference pv - output_avg (vdcAVG s)\<rparr>;
                 pv = (if 700 <s error_pi pv \<or> error_pi pv <s - 700
                       then pv\<lparr>ki := signed_drop_bit 1 (KI_V c)\<rparr>
                       else pv\<lparr>ki := KI_V c\<rparr>);
                 pv = PFC_PIController x pv (error_pi pv)
             in s\<lparr>piVoltage := pv, voltLoopExeRate := 0\<rparr>
        else s\<lparr>voltLoopExeRate := voltLoopExeRate s + 1\<rparr>)"
  have f0: "s0 = s\<lparr>piVoltage := piVoltage s0, voltLoopExeRate := voltLoopExeRate s0\<rparr>"
    by (simp add: s0_def Let_def)
  have r0: "PI_keeps_reference x \<longrightarrow> reference (piVoltage s0) = reference (piVoltage s)"
    by (simp add: s0_def Let_def PI_keeps_reference_def)
  have "s' = s0\<lparr>currentReference := currentReference s'\<rparr>"
    using assms unfolding PFC_CurrentRefGenerate_def s0_def [symmetric]
    by (auto simp: Let_def split: Option.bind_splits if_splits)
  then have e: "s' = s\<lparr>piVoltage := piVoltage s0, voltLoopExeRate := voltLoopExeRate s0,
                     currentReference := currentReference s'\<rparr>"
    using f0 by metis
  have "piVoltage s' = piVoltage s0 \<and> voltLoopExeRate s' = voltLoopExeRate s0"
    by (subst e, simp)+
  then show ?thesis using r0 e by simp
qed

lemma PFC_StateMachine_boostDutyRatio_frame:
  assumes "PFC_StateMachine_boostDutyRatio x s = Some s'"
  shows "s' = s\<lparr>boostDutyRatio := boostDutyRatio s'\<rparr>
         \<and> (\<not> 0 <s vdc (pfcVoltage s) \<longrightarrow> s' = s)"
  using assms
  by (auto simp: PFC_StateMachine_boostDutyRatio_def split: Option.bind_splits if_splits)

lemma PFC_CurrentControlLoop_frame:
  assumes "PFC_CurrentControlLoop c x s = Some s'"
  shows "s' = s\<lparr>iL := iL s', averageCurrent := averageCurrent s', piCurrent := piCurrent s',
                 duty := duty s'\<rparr>
         \<and> iL s' = (if iL s <s 0 then 1 else iL s)
         \<and> (sampleCorrectionEnable s = 1 \<longrightarrow>
               PFC_CurrentSampleCorrection c x (s\<lparr>iL := iL s'\<rparr>) = Some (averageCurrent s'))"
  using assms
  by (auto simp: PFC_CurrentControlLoop_def Let_def split: Option.bind_splits if_splits)

lemma PFC_StateMachine_minCurrentRef_frame:
  "PFC_StateMachine_minCurrentRef c s =
     s\<lparr>duty := duty (PFC_StateMachine_minCurrentRef c s),
       piCurrent := (piCurrent s)\<lparr>integralOut := integralOut (piCurrent (PFC_StateMachine_minCurrentRef c s))\<rparr>\<rparr>"
  by (simp add: PFC_StateMachine_minCurrentRef_def)


lemma PFC_StateMachine_CTRL_RUN_unfold:
  "PFC_StateMachine_CTRL_RUN c x s1 =
     (if faultStatus (run_entry c s1) = PFC_FAULT_NONE c
      then do {
        pfcData \<leftarrow> PFC_CurrentRefGenerate c x (PFC_StateMachine_softStart c (run_entry c s1));
        pfcData \<leftarrow> PFC_StateMachine_boostDutyRatio x pfcData;
        pfcData \<leftarrow> PFC_CurrentControlLoop c x pfcData;
        Some (PFC_StateMachine_minCurrentRef c pfcData, PFC_CTRL_RUN, [])
      }
      else Some (run_entry c s1, PFC_FAULT, []))"
  by (simp add: PFC_StateMachine_CTRL_RUN_def run_entry_def Let_def)

lemma PFC_StateMachine_CTRL_RUN_cases:
  assumes "PFC_StateMachine_CTRL_RUN c x s1 = Some (p, st, ev)"
  shows "(faultStatus (run_entry c s1) \<noteq> PFC_FAULT_NONE c \<and> p = run_entry c s1 \<and> st = PFC_FAULT \<and> ev = [])
       \<or> (faultStatus (run_entry c s1) = PFC_FAULT_NONE c \<and> st = PFC_CTRL_RUN \<and> ev = []
           \<and> (\<exists>s4 s5 s6.
                 PFC_CurrentRefGenerate c x (PFC_StateMachine_softStart c (run_entry c s1)) = Some s4
               \<and> PFC_StateMachine_boostDutyRatio x s4 = Some s5
               \<and> PFC_CurrentControlLoop c x s5 = Some s6
               \<and> p = PFC_StateMachine_minCurrentRef c s6))"
  using assms unfolding PFC_StateMachine_CTRL_RUN_unfold
  by (auto split: Option.bind_splits if_splits)

lemma PFC_StateMachine_run_cycle:
  assumes "state s = PFC_CTRL_RUN" "PFC_StateMachine c x s = Some (s', ev)" "state s' = PFC_CTRL_RUN"
  shows "\<exists>s1 s4 s5 s6. PFC_StateMachine_conditioning x s = Some s1
     \<and> faultStatus (run_entry c s1) = PFC_FAULT_NONE c
     \<and> PFC_CurrentRefGenerate c x (PFC_StateMachine_softStart c (run_entry c s1)) = Some s4
     \<and> PFC_StateMachine_boostDutyRatio x s4 = Some s5
     \<and> PFC_CurrentControlLoop c x s5 = Some s6
     \<and> s' = (PFC_StateMachine_minCurrentRef c s6)\<lparr>state := PFC_CTRL_RUN\<rparr> \<and> ev = []"
proof -
  obtain s1 p st where s1: "PFC_StateMachine_conditioning x s = Some s1"
      and r: "PFC_StateMachine_CTRL_RUN c x s1 = Some (p, st, ev)" and s': "s' = p\<lparr>state := st\<rparr>"
    using assms(1,2) by (auto simp: PFC_StateMachine_def Let_def split: Option.bind_splits)
  have "st = PFC_CTRL_RUN" using s' assms(3) by simp
  then show ?thesis
    using PFC_StateMachine_CTRL_RUN_cases [OF r] s1 s' by auto
qed

lemma run_entry_frame:
  "run_entry c s1 = s1\<lparr>iL := iL (run_entry c s1), faultStatus := faultStatus (run_entry c s1)\<rparr>"
  by (simp add: run_entry_def PFC_FaultCheck_def Let_def)

lemma PFC_CurrentSampleCorrection_cong:
  "boostDutyRatio a = boostDutyRatio b \<Longrightarrow> output_pi (piCurrent a) = output_pi (piCurrent b)
     \<Longrightarrow> iL a = iL b
     \<Longrightarrow> PFC_CurrentSampleCorrection c x a = PFC_CurrentSampleCorrection c x b"
  by (simp only: PFC_CurrentSampleCorrection_def)

text \<open>
  C9.  A cycle entered and left in the run state (no fault) with a DC-bus sample
  \<open>vdc \<le> 0\<close> leaves \<open>boostDutyRatio\<close> as it was; and when sample correction is
  enabled, the average current of that cycle is what \<open>PFC_CurrentSampleCorrection\<close>
  computes on the context of the previous cycle, in which only the current has been
  replaced by this cycle's: it uses the previous ratio.
\<close>

theorem stale_boostDutyRatio:
  assumes "state s = PFC_CTRL_RUN" "PFC_StateMachine c x s = Some (s', ev)"
    and "state s' = PFC_CTRL_RUN" "vdc (pfcVoltage s) \<le>s 0"
  shows "boostDutyRatio s' = boostDutyRatio s
     \<and> (sampleCorrectionEnable s = 1 \<longrightarrow>
           PFC_CurrentSampleCorrection c x (s\<lparr>iL := iL s'\<rparr>) = Some (averageCurrent s'))"
proof -
  obtain s1 s4 s5 s6 where p: "PFC_StateMachine_conditioning x s = Some s1"
      "PFC_CurrentRefGenerate c x (PFC_StateMachine_softStart c (run_entry c s1)) = Some s4"
      "PFC_StateMachine_boostDutyRatio x s4 = Some s5"
      "PFC_CurrentControlLoop c x s5 = Some s6"
      "s' = (PFC_StateMachine_minCurrentRef c s6)\<lparr>state := PFC_CTRL_RUN\<rparr>"
    using PFC_StateMachine_run_cycle [OF assms(1-3)] by blast
  let ?s2 = "run_entry c s1"
  let ?s3 = "PFC_StateMachine_softStart c ?s2"
  have c1: "boostDutyRatio s1 = boostDutyRatio s \<and> piCurrent s1 = piCurrent s
      \<and> vdc (pfcVoltage s1) = vdc (pfcVoltage s) \<and> sampleCorrectionEnable s1 = sampleCorrectionEnable s"
    using PFC_StateMachine_conditioning_shape [OF p(1)] by auto
  have c2: "boostDutyRatio ?s2 = boostDutyRatio s1 \<and> piCurrent ?s2 = piCurrent s1
      \<and> pfcVoltage ?s2 = pfcVoltage s1 \<and> sampleCorrectionEnable ?s2 = sampleCorrectionEnable s1"
    by (subst run_entry_frame, simp)+
  have c3: "boostDutyRatio ?s3 = boostDutyRatio ?s2 \<and> piCurrent ?s3 = piCurrent ?s2
      \<and> pfcVoltage ?s3 = pfcVoltage ?s2 \<and> sampleCorrectionEnable ?s3 = sampleCorrectionEnable ?s2"
    by (subst PFC_StateMachine_softStart_frame, simp)+
  have f4: "s4 = ?s3\<lparr>piVoltage := piVoltage s4, voltLoopExeRate := voltLoopExeRate s4,
                 currentReference := currentReference s4\<rparr>"
    using PFC_CurrentRefGenerate_frame [OF p(2)] by blast
  have c4: "boostDutyRatio s4 = boostDutyRatio ?s3 \<and> piCurrent s4 = piCurrent ?s3
      \<and> pfcVoltage s4 = pfcVoltage ?s3 \<and> sampleCorrectionEnable s4 = sampleCorrectionEnable ?s3"
    by (subst f4, simp)+
  have nv: "\<not> 0 <s vdc (pfcVoltage s4)"
    using assms(4) c1 c2 c3 c4 by (simp add: word_sless_alt word_sle_eq)
  have c5: "s5 = s4"
    using PFC_StateMachine_boostDutyRatio_frame [OF p(3)] nv by blast
  note l = PFC_CurrentControlLoop_frame [OF p(4)]
  have f6: "s6 = s5\<lparr>iL := iL s6, averageCurrent := averageCurrent s6, piCurrent := piCurrent s6,
                 duty := duty s6\<rparr>"
    using l by blast
  have c6: "boostDutyRatio s6 = boostDutyRatio s5"
    by (subst f6, simp)
  have c7: "boostDutyRatio s' = boostDutyRatio s6 \<and> iL s' = iL s6 \<and> averageCurrent s' = averageCurrent s6"
    unfolding p(5) by (subst PFC_StateMachine_minCurrentRef_frame, simp)+
  have first: "boostDutyRatio s' = boostDutyRatio s"
    using c1 c2 c3 c4 c5 c6 c7 by simp
  have second: "PFC_CurrentSampleCorrection c x (s\<lparr>iL := iL s'\<rparr>) = Some (averageCurrent s')"
    if en: "sampleCorrectionEnable s = 1"
  proof -
    have "sampleCorrectionEnable s5 = 1" using en c1 c2 c3 c4 c5 by simp
    then have "PFC_CurrentSampleCorrection c x (s5\<lparr>iL := iL s6\<rparr>) = Some (averageCurrent s6)"
      using l by blast
    moreover have "PFC_CurrentSampleCorrection c x (s\<lparr>iL := iL s'\<rparr>)
        = PFC_CurrentSampleCorrection c x (s5\<lparr>iL := iL s6\<rparr>)"
      using c1 c2 c3 c4 c5 c7 by (intro PFC_CurrentSampleCorrection_cong) simp_all
    ultimately show ?thesis using c7 by simp
  qed
  show ?thesis using first second by blast
qed

lemma PFC_StateMachine_softStart_values:
  "reference (piVoltage (PFC_StateMachine_softStart c s)) =
     (if reference (piVoltage s) <s PFC_OUPUT_VOLTAGE_REFERENCE c
      then if rampRate s = 0 then reference (piVoltage s) + RAMP_COUNT c
           else reference (piVoltage s)
      else PFC_OUPUT_VOLTAGE_REFERENCE c)
   \<and> rampRate (PFC_StateMachine_softStart c s) =
     (if reference (piVoltage s) <s PFC_OUPUT_VOLTAGE_REFERENCE c
      then if rampRate s = 0 then RAMP_RATE c else rampRate s - 1
      else rampRate s)"
  by (simp add: PFC_StateMachine_softStart_def)

lemma PFC_StateMachine_run_cycle_reference:
  assumes "state s = PFC_CTRL_RUN" "PFC_StateMachine c x s = Some (s', ev)"
    and "state s' = PFC_CTRL_RUN" "PI_keeps_reference x"
  shows "reference (piVoltage s') = reference (piVoltage (PFC_StateMachine_softStart c s))
     \<and> rampRate s' = rampRate (PFC_StateMachine_softStart c s)"
proof -
  obtain s1 s4 s5 s6 where p: "PFC_StateMachine_conditioning x s = Some s1"
      "PFC_CurrentRefGenerate c x (PFC_StateMachine_softStart c (run_entry c s1)) = Some s4"
      "PFC_StateMachine_boostDutyRatio x s4 = Some s5"
      "PFC_CurrentControlLoop c x s5 = Some s6"
      "s' = (PFC_StateMachine_minCurrentRef c s6)\<lparr>state := PFC_CTRL_RUN\<rparr>"
    using PFC_StateMachine_run_cycle [OF assms(1-3)] by blast
  let ?s2 = "run_entry c s1"
  let ?s3 = "PFC_StateMachine_softStart c ?s2"
  have c1: "piVoltage s1 = piVoltage s \<and> rampRate s1 = rampRate s"
    using PFC_StateMachine_conditioning_shape [OF p(1)] by auto
  have c2: "piVoltage ?s2 = piVoltage s1 \<and> rampRate ?s2 = rampRate s1"
    by (subst run_entry_frame, simp)+
  have c3: "reference (piVoltage ?s3) = reference (piVoltage (PFC_StateMachine_softStart c s))
      \<and> rampRate ?s3 = rampRate (PFC_StateMachine_softStart c s)"
    using c1 c2 by (simp add: PFC_StateMachine_softStart_values)
  note g = PFC_CurrentRefGenerate_frame [OF p(2)]
  have f4: "s4 = ?s3\<lparr>piVoltage := piVoltage s4, voltLoopExeRate := voltLoopExeRate s4,
                 currentReference := currentReference s4\<rparr>"
    using g by blast
  have c4: "reference (piVoltage s4) = reference (piVoltage ?s3)"
    using g assms(4) by blast
  have c4': "rampRate s4 = rampRate ?s3"
    by (subst f4, simp)
  have f5: "s5 = s4\<lparr>boostDutyRatio := boostDutyRatio s5\<rparr>"
    using PFC_StateMachine_boostDutyRatio_frame [OF p(3)] by blast
  have c5: "piVoltage s5 = piVoltage s4 \<and> rampRate s5 = rampRate s4"
    by (subst f5, simp)+
  have f6: "s6 = s5\<lparr>iL := iL s6, averageCurrent := averageCurrent s6, piCurrent := piCurrent s6,
                 duty := duty s6\<rparr>"
    using PFC_CurrentControlLoop_frame [OF p(4)] by blast
  have c6: "piVoltage s6 = piVoltage s5 \<and> rampRate s6 = rampRate s5"
    by (subst f6, simp)+
  have c7: "piVoltage s' = piVoltage s6 \<and> rampRate s' = rampRate s6"
    unfolding p(5) by (subst PFC_StateMachine_minCurrentRef_frame, simp)+
  show ?thesis using c3 c4 c4' c5 c6 c7 by simp
qed

lemma PFC_ADCInterrupt_unfold:
  assumes "PFC_ADCInterrupt c x adc s = Some (s', ev)"
  shows "\<exists>s'' ev''. PFC_StateMachine c x
            (s\<lparr>pfcVoltage := (pfcVoltage s)\<lparr>vdc := fst adc, vac := fst (snd adc)\<rparr>,
               pfcCurrent := (pfcCurrent s)\<lparr>iL_meas := snd (snd adc)\<rparr>\<rparr>) = Some (s'', ev'')
          \<and> s' = s''\<lparr>duty := duty s'\<rparr>"
  using assms
  by (cases adc) (auto simp: PFC_ADCInterrupt_def Let_def split: Option.bind_splits if_splits)

lemma PFC_ADCInterrupt_run_cycle_reference:
  assumes "state s = PFC_CTRL_RUN" "PFC_ADCInterrupt c x adc s = Some (s', ev)"
    and "state s' = PFC_CTRL_RUN" "PI_keeps_reference x"
  shows "reference (piVoltage s') =
     (if reference (piVoltage s) <s PFC_OUPUT_VOLTAGE_REFERENCE c
      then if rampRate s = 0 then reference (piVoltage s) + RAMP_COUNT c
           else reference (piVoltage s)
      else PFC_OUPUT_VOLTAGE_REFERENCE c)
   \<and> rampRate s' =
     (if reference (piVoltage s) <s PFC_OUPUT_VOLTAGE_REFERENCE c
      then if rampRate s = 0 then RAMP_RATE c else rampRate s - 1
      else rampRate s)"
proof -
  let ?l = "s\<lparr>pfcVoltage := (pfcVoltage s)\<lparr>vdc := fst adc, vac := fst (snd adc)\<rparr>,
               pfcCurrent := (pfcCurrent s)\<lparr>iL_meas := snd (snd adc)\<rparr>\<rparr>"
  obtain s'' ev'' where r: "PFC_StateMachine c x ?l = Some (s'', ev'')" "s' = s''\<lparr>duty := duty s'\<rparr>"
    using PFC_ADCInterrupt_unfold [OF assms(2)] by blast
  have e: "state s'' = state s' \<and> piVoltage s'' = piVoltage s' \<and> rampRate s'' = rampRate s'"
    using arg_cong [OF r(2), of state] arg_cong [OF r(2), of piVoltage]
      arg_cong [OF r(2), of rampRate] by simp
  have "reference (piVoltage s'') = reference (piVoltage (PFC_StateMachine_softStart c ?l))
     \<and> rampRate s'' = rampRate (PFC_StateMachine_softStart c ?l)"
    using assms(1,3,4) r(1) e by (intro PFC_StateMachine_run_cycle_reference) auto
  then show ?thesis using e by (simp add: PFC_StateMachine_softStart_values)
qed

lemma ramp_counter_nonzero:
  fixes r :: "16 word"
  assumes "n < unat r"
  shows "r - of_nat n \<noteq> 0"
proof
  assume "r - of_nat n = 0"
  then have "r = of_nat n" by simp
  then have "unat r = n mod 2 ^ 16" by (simp add: unat_of_nat)
  moreover have "n < 2 ^ 16" using assms unsigned_less [of r, where 'a = nat] by simp
  ultimately show False using assms by simp
qed

lemma run_cycles_no_step:
  assumes "run_cycles c x s n s'" "PI_keeps_reference x"
    and "reference (piVoltage s) <s PFC_OUPUT_VOLTAGE_REFERENCE c" "rampRate s = RAMP_RATE c"
    and "n \<le> unat (RAMP_RATE c)"
  shows "reference (piVoltage s') = reference (piVoltage s) \<and> rampRate s' = RAMP_RATE c - of_nat n"
  using assms
proof (induction rule: run_cycles.induct)
  case (run_cycles_0 s)
  then show ?case by simp
next
  case (run_cycles_Suc s n s1 adc s2 events)
  have ih: "reference (piVoltage s1) = reference (piVoltage s)"
      "rampRate s1 = RAMP_RATE c - of_nat n"
    using run_cycles_Suc by auto
  have nz: "rampRate s1 \<noteq> 0"
    using run_cycles_Suc.prems(4) ih(2) ramp_counter_nonzero [of n "RAMP_RATE c"] by simp
  show ?case
    using PFC_ADCInterrupt_run_cycle_reference
      [OF run_cycles_Suc.hyps(2,3,4) run_cycles_Suc.prems(1)] ih nz run_cycles_Suc.prems(2)
    by simp
qed

lemma run_cycles_hold:
  assumes "run_cycles c x s n s'" "PI_keeps_reference x"
    and "\<not> reference (piVoltage s) <s PFC_OUPUT_VOLTAGE_REFERENCE c"
  shows "\<not> reference (piVoltage s') <s PFC_OUPUT_VOLTAGE_REFERENCE c
     \<and> (0 < n \<longrightarrow> reference (piVoltage s') = PFC_OUPUT_VOLTAGE_REFERENCE c)"
  using assms
proof (induction rule: run_cycles.induct)
  case (run_cycles_0 s)
  then show ?case by simp
next
  case (run_cycles_Suc s n s1 adc s2 events)
  have ih: "\<not> reference (piVoltage s1) <s PFC_OUPUT_VOLTAGE_REFERENCE c"
    using run_cycles_Suc by auto
  show ?case
    using PFC_ADCInterrupt_run_cycle_reference
      [OF run_cycles_Suc.hyps(2,3,4) run_cycles_Suc.prems(1)] ih
    by simp
qed

lemma ramp_step_exact:
  fixes r t k :: "16 word"
  assumes "r <s t" "0 \<le>s k" "sint t + sint k \<le> 32767"
  shows "sint (r + k) = sint r + sint k"
  using assms sint16_range [of r] sint16_range [of k]
  by (simp add: sint_word_add signed_take_bit_int_eq_self_iff word_sless_alt word_sle_eq)

text \<open>
  C4, amended.  Provided the PI controller leaves the reference alone, in every
  interrupt entered and left in the run state: a reference below the target is
  increased by \<open>RAMP_COUNT\<close> (a 16-bit addition) when the ramp counter is 0, the
  counter being reloaded with \<open>RAMP_RATE\<close>, and is left unchanged otherwise, the
  counter being decremented; a reference at or above the target is set to the
  target.  When \<open>0 \<le> RAMP_COUNT\<close> and target plus \<open>RAMP_COUNT\<close> is at most 32767, a
  reference below the target does not decrease in such a cycle and stays below
  target plus \<open>RAMP_COUNT\<close>: a step overshoots the target by less than
  \<open>RAMP_COUNT\<close>.  A reference that is below the target while the counter holds
  \<open>RAMP_RATE\<close> does not move during the next \<open>RAMP_RATE\<close> cycles (the counter read as
  unsigned), and a reference at or above the target is exactly the target after
  every later cycle.
\<close>

theorem soft_start_reference:
  assumes "PI_keeps_reference x"
  shows "(\<forall>s adc s' ev.
            state s = PFC_CTRL_RUN \<and> PFC_ADCInterrupt c x adc s = Some (s', ev)
            \<and> state s' = PFC_CTRL_RUN \<longrightarrow>
              reference (piVoltage s') =
                (if reference (piVoltage s) <s PFC_OUPUT_VOLTAGE_REFERENCE c
                 then if rampRate s = 0 then reference (piVoltage s) + RAMP_COUNT c
                      else reference (piVoltage s)
                 else PFC_OUPUT_VOLTAGE_REFERENCE c)
            \<and> rampRate s' =
                (if reference (piVoltage s) <s PFC_OUPUT_VOLTAGE_REFERENCE c
                 then if rampRate s = 0 then RAMP_RATE c else rampRate s - 1
                 else rampRate s)
            \<and> (reference (piVoltage s) <s PFC_OUPUT_VOLTAGE_REFERENCE c \<and> 0 \<le>s RAMP_COUNT c
                 \<and> sint (PFC_OUPUT_VOLTAGE_REFERENCE c) + sint (RAMP_COUNT c) \<le> 32767
                 \<longrightarrow> reference (piVoltage s) \<le>s reference (piVoltage s')
                     \<and> sint (reference (piVoltage s'))
                         < sint (PFC_OUPUT_VOLTAGE_REFERENCE c) + sint (RAMP_COUNT c)))
       \<and> (\<forall>s n s'.
            run_cycles c x s n s' \<and> reference (piVoltage s) <s PFC_OUPUT_VOLTAGE_REFERENCE c
            \<and> rampRate s = RAMP_RATE c \<and> n \<le> unat (RAMP_RATE c)
            \<longrightarrow> reference (piVoltage s') = reference (piVoltage s))
       \<and> (\<forall>s n s'.
            run_cycles c x s (Suc n) s'
            \<and> \<not> reference (piVoltage s) <s PFC_OUPUT_VOLTAGE_REFERENCE c
            \<longrightarrow> reference (piVoltage s') = PFC_OUPUT_VOLTAGE_REFERENCE c)"
proof (intro conjI allI impI)
  fix s adc s' ev
  assume a: "state s = PFC_CTRL_RUN \<and> PFC_ADCInterrupt c x adc s = Some (s', ev)
            \<and> state s' = PFC_CTRL_RUN"
  then have st: "state s = PFC_CTRL_RUN" and run: "PFC_ADCInterrupt c x adc s = Some (s', ev)"
    and st': "state s' = PFC_CTRL_RUN" by auto
  note r = PFC_ADCInterrupt_run_cycle_reference [OF st run st' assms]
  show "reference (piVoltage s') =
                (if reference (piVoltage s) <s PFC_OUPUT_VOLTAGE_REFERENCE c
                 then if rampRate s = 0 then reference (piVoltage s) + RAMP_COUNT c
                      else reference (piVoltage s)
                 else PFC_OUPUT_VOLTAGE_REFERENCE c)"
    using r by blast
  show "rampRate s' =
                (if reference (piVoltage s) <s PFC_OUPUT_VOLTAGE_REFERENCE c
                 then if rampRate s = 0 then RAMP_RATE c else rampRate s - 1
                 else rampRate s)"
    using r by blast
  assume m: "reference (piVoltage s) <s PFC_OUPUT_VOLTAGE_REFERENCE c \<and> 0 \<le>s RAMP_COUNT c
                 \<and> sint (PFC_OUPUT_VOLTAGE_REFERENCE c) + sint (RAMP_COUNT c) \<le> 32767"
  have e: "sint (reference (piVoltage s) + RAMP_COUNT c)
      = sint (reference (piVoltage s)) + sint (RAMP_COUNT c)"
    using m by (intro ramp_step_exact [of _ "PFC_OUPUT_VOLTAGE_REFERENCE c"]) auto
  have b: "sint (reference (piVoltage s)) < sint (PFC_OUPUT_VOLTAGE_REFERENCE c)
      \<and> 0 \<le> sint (RAMP_COUNT c)"
    using m by (simp add: word_sless_alt word_sle_eq)
  show "reference (piVoltage s) \<le>s reference (piVoltage s')"
    using r m e b by (simp add: word_sle_eq)
  show "sint (reference (piVoltage s'))
          < sint (PFC_OUPUT_VOLTAGE_REFERENCE c) + sint (RAMP_COUNT c)"
    using r m e b by simp
next
  fix s n s'
  assume "run_cycles c x s n s' \<and> reference (piVoltage s) <s PFC_OUPUT_VOLTAGE_REFERENCE c
            \<and> rampRate s = RAMP_RATE c \<and> n \<le> unat (RAMP_RATE c)"
  then show "reference (piVoltage s') = reference (piVoltage s)"
    using run_cycles_no_step [of c x s n s'] assms by blast
next
  fix s n s'
  assume "run_cycles c x s (Suc n) s'
            \<and> \<not> reference (piVoltage s) <s PFC_OUPUT_VOLTAGE_REFERENCE c"
  then show "reference (piVoltage s') = PFC_OUPUT_VOLTAGE_REFERENCE c"
    using run_cycles_hold [of c x s "Suc n" s'] assms by blast
qed

text \<open>
  C4.  As stated the claim fails: with target 20000 and step 30, a reference of 19990
  is stepped to 20020, above the target, and lowered to 20000 by the next cycle; and
  a reference of 20500, above the target, is lowered to 20000.  All these cycles are
  fault-free cycles of the run state.
\<close>

theorem soft_start_overshoot_counterexample:
  "state ctrl_run_example = PFC_CTRL_RUN
   \<and> reference (piVoltage ctrl_run_example) = 19990
   \<and> PFC_OUPUT_VOLTAGE_REFERENCE config_example = 20000
   \<and> map_option (\<lambda>s. (state s, reference (piVoltage s)))
        (PFC_ADCInterrupt_calls config_example extern_example ctrl_run_example
           [(19000, 4000, 1000)]) = Some (PFC_CTRL_RUN, 20020)
   \<and> map_option (\<lambda>s. (state s, reference (piVoltage s)))
        (PFC_ADCInterrupt_calls config_example extern_example ctrl_run_example
           [(19000, 4000, 1000), (19000, 4000, 1000)]) = Some (PFC_CTRL_RUN, 20000)
   \<and> map_option (\<lambda>s. (state s, reference (piVoltage s)))
        (PFC_ADCInterrupt_calls config_example extern_example
           (ctrl_run_example\<lparr>piVoltage := (piVoltage ctrl_run_example)\<lparr>reference := 20500\<rparr>\<rparr>)
           [(19000, 4000, 1000)]) = Some (PFC_CTRL_RUN, 20000)"
  by code_simp

lemma PI_keeps_reference_example: "PI_keeps_reference extern_example"
  by (simp add: PI_keeps_reference_def extern_example_def PFC_PIController_spec_def Let_def)

theorem soft_start_reference_witness:
  "PI_keeps_reference extern_example \<and> state ctrl_run_example = PFC_CTRL_RUN
   \<and> reference (piVoltage ctrl_run_example) <s PFC_OUPUT_VOLTAGE_REFERENCE config_example
   \<and> rampRate ctrl_run_example = 0
   \<and> 0 \<le>s RAMP_COUNT config_example
   \<and> sint (PFC_OUPUT_VOLTAGE_REFERENCE config_example) + sint (RAMP_COUNT config_example) \<le> 32767
   \<and> (\<exists>s1 ev1 s2 ev2.
         PFC_ADCInterrupt config_example extern_example (19000, 4000, 1000) ctrl_run_example
           = Some (s1, ev1)
       \<and> state s1 = PFC_CTRL_RUN
       \<and> reference (piVoltage s1) = reference (piVoltage ctrl_run_example) + RAMP_COUNT config_example
       \<and> rampRate s1 = RAMP_RATE config_example
       \<and> reference (piVoltage ctrl_run_example) \<le>s reference (piVoltage s1)
       \<and> sint (reference (piVoltage s1))
            < sint (PFC_OUPUT_VOLTAGE_REFERENCE config_example) + sint (RAMP_COUNT config_example)
       \<and> \<not> reference (piVoltage s1) <s PFC_OUPUT_VOLTAGE_REFERENCE config_example
       \<and> PFC_ADCInterrupt config_example extern_example (19000, 4000, 1000) s1 = Some (s2, ev2)
       \<and> state s2 = PFC_CTRL_RUN
       \<and> run_cycles config_example extern_example s1 (Suc 0) s2
       \<and> reference (piVoltage s2) = PFC_OUPUT_VOLTAGE_REFERENCE config_example)"
proof -
  let ?c = config_example and ?x = extern_example and ?adc = "(19000, 4000, 1000) :: int16_t \<times> int16_t \<times> int16_t"
  define s1 where "s1 = fst (the (PFC_ADCInterrupt ?c ?x ?adc ctrl_run_example))"
  define ev1 where "ev1 = snd (the (PFC_ADCInterrupt ?c ?x ?adc ctrl_run_example))"
  define s2 where "s2 = fst (the (PFC_ADCInterrupt ?c ?x ?adc s1))"
  define ev2 where "ev2 = snd (the (PFC_ADCInterrupt ?c ?x ?adc s1))"
  have h: "PI_keeps_reference ?x" by (rule PI_keeps_reference_example)
  have st0: "state ctrl_run_example = PFC_CTRL_RUN" by code_simp
  have lt0: "reference (piVoltage ctrl_run_example) <s PFC_OUPUT_VOLTAGE_REFERENCE ?c" by code_simp
  have rr0: "rampRate ctrl_run_example = 0" by code_simp
  have rc0: "0 \<le>s RAMP_COUNT ?c" by code_simp
  have fit: "sint (PFC_OUPUT_VOLTAGE_REFERENCE ?c) + sint (RAMP_COUNT ?c) \<le> 32767"
    by (simp add: config_example_def)
  have "PFC_ADCInterrupt ?c ?x ?adc ctrl_run_example \<noteq> None" by code_simp
  then have r1: "PFC_ADCInterrupt ?c ?x ?adc ctrl_run_example = Some (s1, ev1)"
    by (auto simp: s1_def ev1_def)
  have st1: "state s1 = PFC_CTRL_RUN" unfolding s1_def by code_simp
  have "PFC_ADCInterrupt ?c ?x ?adc s1 \<noteq> None" unfolding s1_def by code_simp
  then have r2: "PFC_ADCInterrupt ?c ?x ?adc s1 = Some (s2, ev2)"
    by (auto simp: s2_def ev2_def)
  have st2: "state s2 = PFC_CTRL_RUN" unfolding s2_def s1_def by code_simp
  have ge1: "\<not> reference (piVoltage s1) <s PFC_OUPUT_VOLTAGE_REFERENCE ?c"
    unfolding s1_def by code_simp
  have rc: "run_cycles ?c ?x s1 (Suc 0) s2"
    using run_cycles_Suc [OF run_cycles_0 st1 r2 st2] .
  note t = soft_start_reference [OF h, of ?c]
  from t have t1: "state ctrl_run_example = PFC_CTRL_RUN
        \<and> PFC_ADCInterrupt ?c ?x ?adc ctrl_run_example = Some (s1, ev1)
        \<and> state s1 = PFC_CTRL_RUN \<longrightarrow>
              reference (piVoltage s1) =
                (if reference (piVoltage ctrl_run_example) <s PFC_OUPUT_VOLTAGE_REFERENCE ?c
                 then if rampRate ctrl_run_example = 0
                      then reference (piVoltage ctrl_run_example) + RAMP_COUNT ?c
                      else reference (piVoltage ctrl_run_example)
                 else PFC_OUPUT_VOLTAGE_REFERENCE ?c)
            \<and> rampRate s1 =
                (if reference (piVoltage ctrl_run_example) <s PFC_OUPUT_VOLTAGE_REFERENCE ?c
                 then if rampRate ctrl_run_example = 0 then RAMP_RATE ?c
                      else rampRate ctrl_run_example - 1
                 else rampRate ctrl_run_example)
            \<and> (reference (piVoltage ctrl_run_example) <s PFC_OUPUT_VOLTAGE_REFERENCE ?c
                 \<and> 0 \<le>s RAMP_COUNT ?c
                 \<and> sint (PFC_OUPUT_VOLTAGE_REFERENCE ?c) + sint (RAMP_COUNT ?c) \<le> 32767
                 \<longrightarrow> reference (piVoltage ctrl_run_example) \<le>s reference (piVoltage s1)
                     \<and> sint (reference (piVoltage s1))
                         < sint (PFC_OUPUT_VOLTAGE_REFERENCE ?c) + sint (RAMP_COUNT ?c))"
    by blast
  have a1: "reference (piVoltage s1) = reference (piVoltage ctrl_run_example) + RAMP_COUNT ?c
      \<and> rampRate s1 = RAMP_RATE ?c
      \<and> reference (piVoltage ctrl_run_example) \<le>s reference (piVoltage s1)
      \<and> sint (reference (piVoltage s1))
            < sint (PFC_OUPUT_VOLTAGE_REFERENCE ?c) + sint (RAMP_COUNT ?c)"
    using t1 st0 r1 st1 lt0 rr0 rc0 fit by auto
  have a2: "reference (piVoltage s2) = PFC_OUPUT_VOLTAGE_REFERENCE ?c"
    using t rc ge1 by blast
  show ?thesis
    using h st0 lt0 rr0 rc0 fit r1 st1 a1 ge1 r2 st2 rc a2 by blast
qed

theorem stale_boostDutyRatio_witness:
  "state ctrl_run_example = PFC_CTRL_RUN \<and> vdc (pfcVoltage ctrl_run_example) \<le>s 0
   \<and> sampleCorrectionEnable ctrl_run_example = 1
   \<and> (\<exists>s' ev. PFC_StateMachine config_example extern_example ctrl_run_example = Some (s', ev)
         \<and> state s' = PFC_CTRL_RUN
         \<and> boostDutyRatio s' = boostDutyRatio ctrl_run_example
         \<and> PFC_CurrentSampleCorrection config_example extern_example
              (ctrl_run_example\<lparr>iL := iL s'\<rparr>) = Some (averageCurrent s'))"
proof -
  let ?c = config_example and ?x = extern_example
  define s' where "s' = fst (the (PFC_StateMachine ?c ?x ctrl_run_example))"
  define ev where "ev = snd (the (PFC_StateMachine ?c ?x ctrl_run_example))"
  have st0: "state ctrl_run_example = PFC_CTRL_RUN" by code_simp
  have v0: "vdc (pfcVoltage ctrl_run_example) \<le>s 0" by code_simp
  have en: "sampleCorrectionEnable ctrl_run_example = 1" by code_simp
  have "PFC_StateMachine ?c ?x ctrl_run_example \<noteq> None" by code_simp
  then have r: "PFC_StateMachine ?c ?x ctrl_run_example = Some (s', ev)"
    by (auto simp: s'_def ev_def)
  have st: "state s' = PFC_CTRL_RUN" unfolding s'_def by code_simp
  show ?thesis
    using st0 v0 en r st stale_boostDutyRatio [OF st0 r st v0] by blast
qed

section \<open>Fault status\<close>

lemma disjoint_add_or:
  fixes a b :: "16 word"
  shows "a AND b = 0 \<Longrightarrow> a + b = a OR b"
  by (rule disjunctive_add_eq_or)

lemma or_and_distrib_zero:
  fixes a b d :: "16 word"
  assumes "a AND d = 0" "b AND d = 0"
  shows "(a OR b) AND d = 0"
  using assms by (simp add: bit.conj_disj_distrib2)

lemma if_mask_disjoint:
  fixes u v :: "16 word"
  assumes "u AND v = 0"
  shows "(if P then u else 0) AND (if Q then v else 0) = 0"
  using assms by simp

lemma PFC_FaultCheck_union:
  assumes "fault_bits_disjoint c" "faultStatus p = 0"
  shows "faultStatus (PFC_FaultCheck c p) =
     fault_union c (PFC_OUTPUT_OVER_VOLTAGE_LIMIT c \<le>s output_avg (vdcAVG p))
       (sqrOutput (vacRMS p) <s PFC_INPUT_UNDER_VOLTAGE_LIMIT_LO c)
       (PFC_INPUT_OVER_VOLTAGE_LIMIT_HI c \<le>s sqrOutput (vacRMS p))"
proof -
  let ?a = "if PFC_OUTPUT_OVER_VOLTAGE_LIMIT c \<le>s output_avg (vdcAVG p) then PFC_FAULT_OP_OV c else 0"
  let ?b = "if sqrOutput (vacRMS p) <s PFC_INPUT_UNDER_VOLTAGE_LIMIT_LO c then PFC_FAULT_IP_UV c else 0"
  let ?d = "if PFC_INPUT_OVER_VOLTAGE_LIMIT_HI c \<le>s sqrOutput (vacRMS p) then PFC_FAULT_IP_OV c else 0"
  have e: "faultStatus (PFC_FaultCheck c p) = ?a + ?b + ?d"
    using assms(2) by (simp add: PFC_FaultCheck_def Let_def)
  have ab: "?a AND ?b = 0" and ad: "?a AND ?d = 0" and bd: "?b AND ?d = 0"
    using assms(1) by (simp_all add: fault_bits_disjoint_def)
  have "?a + ?b = ?a OR ?b" using ab by (rule disjoint_add_or)
  moreover have "(?a OR ?b) + ?d = (?a OR ?b) OR ?d"
    using or_and_distrib_zero [OF ad bd] by (rule disjoint_add_or)
  ultimately show ?thesis unfolding e fault_union_def by (simp add: or.assoc)
qed

lemma fault_union_in_unions: "fault_union c a b d \<in> set (fault_unions c)"
  by (cases a; cases b; cases d) (simp_all add: fault_unions_def)

lemma in_unions_cases:
  assumes "f \<in> set (fault_unions c)"
  obtains a b d where "f = fault_union c a b d"
  using assms by (auto simp: fault_unions_def)

lemma fault_union_clear_uv:
  assumes "fault_bits_disjoint c"
  shows "fault_union c a b d AND NOT (PFC_FAULT_IP_UV c) = fault_union c a False d"
proof -
  have 1: "(if a then PFC_FAULT_OP_OV c else 0) AND NOT (PFC_FAULT_IP_UV c) = (if a then PFC_FAULT_OP_OV c else 0)"
    using assms by (intro and_not_disjoint) (simp add: fault_bits_disjoint_def)
  have 2: "(if d then PFC_FAULT_IP_OV c else 0) AND NOT (PFC_FAULT_IP_UV c) = (if d then PFC_FAULT_IP_OV c else 0)"
    using assms by (intro and_not_disjoint) (simp add: fault_bits_disjoint_def ac_simps)
  have 3: "(if b then PFC_FAULT_IP_UV c else 0) AND NOT (PFC_FAULT_IP_UV c) = 0"
    by simp
  show ?thesis
    unfolding fault_union_def by (simp only: bit.conj_disj_distrib2 1 2 3) simp
qed

lemma fault_union_clear_ov:
  assumes "fault_bits_disjoint c"
  shows "fault_union c a b d AND NOT (PFC_FAULT_IP_OV c) = fault_union c a b False"
proof -
  have 1: "(if a then PFC_FAULT_OP_OV c else 0) AND NOT (PFC_FAULT_IP_OV c) = (if a then PFC_FAULT_OP_OV c else 0)"
    using assms by (intro and_not_disjoint) (simp add: fault_bits_disjoint_def)
  have 2: "(if b then PFC_FAULT_IP_UV c else 0) AND NOT (PFC_FAULT_IP_OV c) = (if b then PFC_FAULT_IP_UV c else 0)"
    using assms by (intro and_not_disjoint) (simp add: fault_bits_disjoint_def ac_simps)
  have 3: "(if d then PFC_FAULT_IP_OV c else 0) AND NOT (PFC_FAULT_IP_OV c) = 0"
    by simp
  show ?thesis
    unfolding fault_union_def by (simp only: bit.conj_disj_distrib2 1 2 3) simp
qed

lemma PFC_StateMachine_cases:
  assumes "PFC_StateMachine c x p = Some (p', ev)"
  shows "\<exists>s1 q st. PFC_StateMachine_conditioning x p = Some s1 \<and> p' = q\<lparr>state := st\<rparr>
     \<and> (case state p of
           PFC_INIT \<Rightarrow> (q, st, ev) = PFC_StateMachine_INIT x s1
         | PFC_OFFSET_MEAS \<Rightarrow> (q, st, ev) = PFC_StateMachine_OFFSET_MEAS x s1
         | PFC_WAIT_1CYCLE \<Rightarrow> (q, st, ev) = PFC_StateMachine_WAIT_1CYCLE s1
         | PFC_CTRL_RUN \<Rightarrow> PFC_StateMachine_CTRL_RUN c x s1 = Some (q, st, ev)
         | PFC_FAULT \<Rightarrow> (q, st, ev) = PFC_StateMachine_FAULT c s1
         | PFC_STATE_OTHER \<Rightarrow> (q, st, ev) = (s1, PFC_STATE_OTHER, []))"
  using assms
  by (auto simp: PFC_StateMachine_def Let_def split: Option.bind_splits PFC_STATE_T.splits)

lemma run_chain_frame:
  assumes "PFC_CurrentRefGenerate c x (PFC_StateMachine_softStart c s2) = Some s4"
    and "PFC_StateMachine_boostDutyRatio x s4 = Some s5"
    and "PFC_CurrentControlLoop c x s5 = Some s6"
  shows "faultStatus (PFC_StateMachine_minCurrentRef c s6) = faultStatus s2
     \<and> vdcAVG (PFC_StateMachine_minCurrentRef c s6) = vdcAVG s2
     \<and> vacAVG (PFC_StateMachine_minCurrentRef c s6) = vacAVG s2
     \<and> vacRMS (PFC_StateMachine_minCurrentRef c s6) = vacRMS s2"
proof -
  let ?s3 = "PFC_StateMachine_softStart c s2"
  have c3: "faultStatus ?s3 = faultStatus s2 \<and> vdcAVG ?s3 = vdcAVG s2 \<and> vacAVG ?s3 = vacAVG s2
      \<and> vacRMS ?s3 = vacRMS s2"
    by (subst PFC_StateMachine_softStart_frame, simp)+
  have f4: "s4 = ?s3\<lparr>piVoltage := piVoltage s4, voltLoopExeRate := voltLoopExeRate s4,
                 currentReference := currentReference s4\<rparr>"
    using PFC_CurrentRefGenerate_frame [OF assms(1)] by blast
  have c4: "faultStatus s4 = faultStatus ?s3 \<and> vdcAVG s4 = vdcAVG ?s3 \<and> vacAVG s4 = vacAVG ?s3
      \<and> vacRMS s4 = vacRMS ?s3"
    by (subst f4, simp)+
  have f5: "s5 = s4\<lparr>boostDutyRatio := boostDutyRatio s5\<rparr>"
    using PFC_StateMachine_boostDutyRatio_frame [OF assms(2)] by blast
  have c5: "faultStatus s5 = faultStatus s4 \<and> vdcAVG s5 = vdcAVG s4 \<and> vacAVG s5 = vacAVG s4
      \<and> vacRMS s5 = vacRMS s4"
    by (subst f5, simp)+
  have f6: "s6 = s5\<lparr>iL := iL s6, averageCurrent := averageCurrent s6, piCurrent := piCurrent s6,
                 duty := duty s6\<rparr>"
    using PFC_CurrentControlLoop_frame [OF assms(3)] by blast
  have c6: "faultStatus s6 = faultStatus s5 \<and> vdcAVG s6 = vdcAVG s5 \<and> vacAVG s6 = vacAVG s5
      \<and> vacRMS s6 = vacRMS s5"
    by (subst f6, simp)+
  have c7: "faultStatus (PFC_StateMachine_minCurrentRef c s6) = faultStatus s6
      \<and> vdcAVG (PFC_StateMachine_minCurrentRef c s6) = vdcAVG s6
      \<and> vacAVG (PFC_StateMachine_minCurrentRef c s6) = vacAVG s6
      \<and> vacRMS (PFC_StateMachine_minCurrentRef c s6) = vacRMS s6"
    by (subst PFC_StateMachine_minCurrentRef_frame, simp)+
  show ?thesis using c3 c4 c5 c6 c7 by simp
qed

lemma run_entry_filters:
  "vdcAVG (run_entry c s1) = vdcAVG s1 \<and> vacAVG (run_entry c s1) = vacAVG s1
   \<and> vacRMS (run_entry c s1) = vacRMS s1
   \<and> faultStatus (run_entry c s1) = faultStatus (PFC_FaultCheck c s1)"
  by (simp add: run_entry_def PFC_FaultCheck_def Let_def)

text \<open>What one call in the run state does to the fault status, the state and the filters.\<close>

lemma PFC_StateMachine_CTRL_RUN_summary:
  assumes "PFC_StateMachine_CTRL_RUN c x s1 = Some (q, st, ev)"
  shows "faultStatus q = faultStatus (PFC_FaultCheck c s1)
     \<and> st = (if faultStatus q = PFC_FAULT_NONE c then PFC_CTRL_RUN else PFC_FAULT)
     \<and> vdcAVG q = vdcAVG s1 \<and> vacAVG q = vacAVG s1 \<and> vacRMS q = vacRMS s1"
  using PFC_StateMachine_CTRL_RUN_cases [OF assms] run_entry_filters [of c s1]
  by (auto dest: run_chain_frame)

lemma PFC_StateMachine_other_summary:
  "faultStatus (fst (PFC_StateMachine_INIT x s1)) = faultStatus s1
   \<and> fst (snd (PFC_StateMachine_INIT x s1)) = PFC_OFFSET_MEAS
   \<and> faultStatus (fst (PFC_StateMachine_OFFSET_MEAS x s1)) = faultStatus s1
   \<and> fst (snd (PFC_StateMachine_OFFSET_MEAS x s1)) \<in> {PFC_OFFSET_MEAS, PFC_WAIT_1CYCLE}
   \<and> faultStatus (fst (PFC_StateMachine_WAIT_1CYCLE s1)) = faultStatus s1
   \<and> fst (snd (PFC_StateMachine_WAIT_1CYCLE s1)) \<in> {PFC_WAIT_1CYCLE, PFC_CTRL_RUN}"
  by (simp add: PFC_StateMachine_INIT_def PFC_StateMachine_OFFSET_MEAS_def
      PFC_StateMachine_WAIT_1CYCLE_def PFC_ResetParams_def Let_def)

lemma PFC_StateMachine_limits_summary:
  "sampleLimit_avg (vdcAVG (fst (PFC_StateMachine_INIT x s1))) = sampleLimit_avg (vdcAVG s1)
   \<and> sampleLimit_avg (vacAVG (fst (PFC_StateMachine_INIT x s1))) = sampleLimit_avg (vacAVG s1)
   \<and> sampleLimit_rms (vacRMS (fst (PFC_StateMachine_INIT x s1))) = sampleLimit_rms (vacRMS s1)
   \<and> vdcAVG (fst (PFC_StateMachine_OFFSET_MEAS x s1)) = vdcAVG s1
   \<and> vacAVG (fst (PFC_StateMachine_OFFSET_MEAS x s1)) = vacAVG s1
   \<and> vacRMS (fst (PFC_StateMachine_OFFSET_MEAS x s1)) = vacRMS s1
   \<and> fst (PFC_StateMachine_WAIT_1CYCLE s1) = s1
   \<and> vdcAVG (fst (PFC_StateMachine_FAULT c s1)) = vdcAVG s1
   \<and> vacAVG (fst (PFC_StateMachine_FAULT c s1)) = vacAVG s1
   \<and> vacRMS (fst (PFC_StateMachine_FAULT c s1)) = vacRMS s1"
  by (simp add: PFC_StateMachine_INIT_def PFC_StateMachine_OFFSET_MEAS_def
      PFC_StateMachine_WAIT_1CYCLE_def PFC_StateMachine_FAULT_def PFC_ResetParams_def Let_def)

lemma conditioning_keeps:
  assumes "PFC_StateMachine_conditioning x p = Some s1"
  shows "faultStatus s1 = faultStatus p \<and> state s1 = state p
     \<and> sampleLimit_avg (vdcAVG s1) = sampleLimit_avg (vdcAVG p)
     \<and> sampleLimit_avg (vacAVG s1) = sampleLimit_avg (vacAVG p)
     \<and> sampleLimit_rms (vacRMS s1) = sampleLimit_rms (vacRMS p)"
proof -
  obtain a b r where s1: "s1 = p\<lparr>vdcAVG := a, vacAVG := b,
                        pfcVoltage := (pfcVoltage p)\<lparr>offsetVac := output_avg b\<rparr>,
                        rectifiedVac := PFC_SignalRectification ((pfcVoltage p)\<lparr>offsetVac := output_avg b\<rparr>),
                        vacRMS := r\<rparr>"
      and a: "PFC_Average x (vdcAVG p) (vdc (pfcVoltage p)) = Some a"
      and b: "PFC_Average x (vacAVG p) (vac (pfcVoltage p)) = Some b"
      and r: "PFC_SquaredRMSCalculate x (vacRMS p)
                 (PFC_SignalRectification ((pfcVoltage p)\<lparr>offsetVac := output_avg b\<rparr>)) = Some r"
    using PFC_StateMachine_conditioning_shape [OF assms] by blast
  have "sampleLimit_avg a = sampleLimit_avg (vdcAVG p)"
    using a by (auto simp: PFC_Average_def Let_def split: Option.bind_splits if_splits)
  moreover have "sampleLimit_avg b = sampleLimit_avg (vacAVG p)"
    using b by (auto simp: PFC_Average_def Let_def split: Option.bind_splits if_splits)
  moreover have "sampleLimit_rms r = sampleLimit_rms (vacRMS p)"
    using r by (auto simp: PFC_SquaredRMSCalculate_def Let_def split: Option.bind_splits if_splits)
  ultimately show ?thesis by (simp add: s1)
qed

lemma PFC_StateMachine_keeps_limits:
  assumes "PFC_StateMachine c x p = Some (p', ev)"
  shows "sampleLimit_avg (vdcAVG p') = sampleLimit_avg (vdcAVG p)
     \<and> sampleLimit_avg (vacAVG p') = sampleLimit_avg (vacAVG p)
     \<and> sampleLimit_rms (vacRMS p') = sampleLimit_rms (vacRMS p)"
proof -
  obtain s1 q st where s1: "PFC_StateMachine_conditioning x p = Some s1" and p': "p' = q\<lparr>state := st\<rparr>"
    and br: "case state p of
           PFC_INIT \<Rightarrow> (q, st, ev) = PFC_StateMachine_INIT x s1
         | PFC_OFFSET_MEAS \<Rightarrow> (q, st, ev) = PFC_StateMachine_OFFSET_MEAS x s1
         | PFC_WAIT_1CYCLE \<Rightarrow> (q, st, ev) = PFC_StateMachine_WAIT_1CYCLE s1
         | PFC_CTRL_RUN \<Rightarrow> PFC_StateMachine_CTRL_RUN c x s1 = Some (q, st, ev)
         | PFC_FAULT \<Rightarrow> (q, st, ev) = PFC_StateMachine_FAULT c s1
         | PFC_STATE_OTHER \<Rightarrow> (q, st, ev) = (s1, PFC_STATE_OTHER, [])"
    using PFC_StateMachine_cases [OF assms] by blast
  note k = conditioning_keeps [OF s1]
  have "sampleLimit_avg (vdcAVG q) = sampleLimit_avg (vdcAVG s1)
     \<and> sampleLimit_avg (vacAVG q) = sampleLimit_avg (vacAVG s1)
     \<and> sampleLimit_rms (vacRMS q) = sampleLimit_rms (vacRMS s1)"
  proof (cases "state p")
    case PFC_INIT
    then have "q = fst (PFC_StateMachine_INIT x s1)" using br by (simp add: prod_eq_iff)
    then show ?thesis using PFC_StateMachine_limits_summary [of x s1] by simp
  next
    case PFC_OFFSET_MEAS
    then have "q = fst (PFC_StateMachine_OFFSET_MEAS x s1)" using br by (simp add: prod_eq_iff)
    then show ?thesis using PFC_StateMachine_limits_summary [of x s1] by simp
  next
    case PFC_WAIT_1CYCLE
    then have "q = fst (PFC_StateMachine_WAIT_1CYCLE s1)" using br by (simp add: prod_eq_iff)
    then show ?thesis using PFC_StateMachine_limits_summary [of x s1] by simp
  next
    case PFC_CTRL_RUN
    then have "PFC_StateMachine_CTRL_RUN c x s1 = Some (q, st, ev)" using br by simp
    then show ?thesis using PFC_StateMachine_CTRL_RUN_summary by simp
  next
    case PFC_FAULT
    then have "q = fst (PFC_StateMachine_FAULT c s1)" using br by (simp add: prod_eq_iff)
    then show ?thesis using PFC_StateMachine_limits_summary [of x s1 c] by simp
  next
    case PFC_STATE_OTHER
    then show ?thesis using br by simp
  qed
  then show ?thesis using k by (simp add: p')
qed


lemma PFC_StateMachine_fault_status_step:
  assumes "PFC_StateMachine c x p = Some (p', ev)"
    and "state p \<noteq> PFC_FAULT \<longrightarrow> faultStatus p = PFC_FAULT_NONE c"
  shows "(state p' \<noteq> PFC_FAULT \<longrightarrow> faultStatus p' = PFC_FAULT_NONE c)
     \<and> (fault_bits_disjoint c \<longrightarrow> faultStatus p \<in> set (fault_unions c)
           \<longrightarrow> faultStatus p' \<in> set (fault_unions c))
     \<and> (fault_bits_disjoint c \<longrightarrow> state p = PFC_CTRL_RUN \<longrightarrow>
           faultStatus p' =
             fault_union c (PFC_OUTPUT_OVER_VOLTAGE_LIMIT c \<le>s output_avg (vdcAVG p'))
               (sqrOutput (vacRMS p') <s PFC_INPUT_UNDER_VOLTAGE_LIMIT_LO c)
               (PFC_INPUT_OVER_VOLTAGE_LIMIT_HI c \<le>s sqrOutput (vacRMS p')))"
proof -
  obtain s1 q st where s1: "PFC_StateMachine_conditioning x p = Some s1" and p': "p' = q\<lparr>state := st\<rparr>"
    and br: "case state p of
           PFC_INIT \<Rightarrow> (q, st, ev) = PFC_StateMachine_INIT x s1
         | PFC_OFFSET_MEAS \<Rightarrow> (q, st, ev) = PFC_StateMachine_OFFSET_MEAS x s1
         | PFC_WAIT_1CYCLE \<Rightarrow> (q, st, ev) = PFC_StateMachine_WAIT_1CYCLE s1
         | PFC_CTRL_RUN \<Rightarrow> PFC_StateMachine_CTRL_RUN c x s1 = Some (q, st, ev)
         | PFC_FAULT \<Rightarrow> (q, st, ev) = PFC_StateMachine_FAULT c s1
         | PFC_STATE_OTHER \<Rightarrow> (q, st, ev) = (s1, PFC_STATE_OTHER, [])"
    using PFC_StateMachine_cases [OF assms(1)] by blast
  have k: "faultStatus s1 = faultStatus p" using conditioning_keeps [OF s1] by simp
  have e: "faultStatus p' = faultStatus q \<and> state p' = st \<and> vdcAVG p' = vdcAVG q
      \<and> vacRMS p' = vacRMS q"
    by (simp add: p')
  show ?thesis
  proof (cases "state p")
    case PFC_INIT
    then have "q = fst (PFC_StateMachine_INIT x s1) \<and> st = fst (snd (PFC_StateMachine_INIT x s1))"
      using br by (simp add: prod_eq_iff)
    then have "faultStatus q = faultStatus p \<and> st \<noteq> PFC_FAULT"
      using PFC_StateMachine_other_summary [of x s1] k by simp
    then show ?thesis using e assms(2) PFC_INIT by simp
  next
    case PFC_OFFSET_MEAS
    then have "q = fst (PFC_StateMachine_OFFSET_MEAS x s1)
        \<and> st = fst (snd (PFC_StateMachine_OFFSET_MEAS x s1))"
      using br by (simp add: prod_eq_iff)
    then have "faultStatus q = faultStatus p \<and> st \<noteq> PFC_FAULT"
      using PFC_StateMachine_other_summary [of x s1] k by auto
    then show ?thesis using e assms(2) PFC_OFFSET_MEAS by simp
  next
    case PFC_WAIT_1CYCLE
    then have "q = fst (PFC_StateMachine_WAIT_1CYCLE s1)
        \<and> st = fst (snd (PFC_StateMachine_WAIT_1CYCLE s1))"
      using br by (simp add: prod_eq_iff)
    then have "faultStatus q = faultStatus p \<and> st \<noteq> PFC_FAULT"
      using PFC_StateMachine_other_summary [of x s1] k by auto
    then show ?thesis using e assms(2) PFC_WAIT_1CYCLE by simp
  next
    case PFC_STATE_OTHER
    then have "faultStatus q = faultStatus p \<and> st \<noteq> PFC_FAULT"
      using br k by simp
    then show ?thesis using e assms(2) PFC_STATE_OTHER by simp
  next
    case PFC_CTRL_RUN
    then have r: "PFC_StateMachine_CTRL_RUN c x s1 = Some (q, st, ev)" using br by simp
    note sm = PFC_StateMachine_CTRL_RUN_summary [OF r]
    have none: "faultStatus s1 = PFC_FAULT_NONE c" using assms(2) PFC_CTRL_RUN k by simp
    have u: "faultStatus q =
             fault_union c (PFC_OUTPUT_OVER_VOLTAGE_LIMIT c \<le>s output_avg (vdcAVG q))
               (sqrOutput (vacRMS q) <s PFC_INPUT_UNDER_VOLTAGE_LIMIT_LO c)
               (PFC_INPUT_OVER_VOLTAGE_LIMIT_HI c \<le>s sqrOutput (vacRMS q))"
      if d: "fault_bits_disjoint c"
    proof -
      have "faultStatus s1 = 0" using none d by (simp add: fault_bits_disjoint_def)
      then show ?thesis using PFC_FaultCheck_union [OF d, of s1] sm by simp
    qed
    have "state p' \<noteq> PFC_FAULT \<longrightarrow> faultStatus p' = PFC_FAULT_NONE c"
      using sm e by (simp split: if_splits)
    then show ?thesis using u e fault_union_in_unions PFC_CTRL_RUN by simp
  next
    case PFC_FAULT
    then have qf: "q = fst (PFC_StateMachine_FAULT c s1) \<and> st = fst (snd (PFC_StateMachine_FAULT c s1))"
      using br by (simp add: prod_eq_iff)
    have a: "state p' \<noteq> PFC_FAULT \<longrightarrow> faultStatus p' = PFC_FAULT_NONE c"
      using PFC_StateMachine_FAULT_exit [of c s1] qf e by (simp split: if_splits)
    have b: "faultStatus p' \<in> set (fault_unions c)"
      if d: "fault_bits_disjoint c" and u: "faultStatus p \<in> set (fault_unions c)"
    proof -
      obtain f g h where fu: "faultStatus p = fault_union c f g h"
        using u by (rule in_unions_cases)
      have "faultStatus q =
         (fault_union c f g h
            AND NOT (if PFC_INPUT_UNDER_VOLTAGE_LIMIT_HI c \<le>s sqrOutput (vacRMS s1)
                     then PFC_FAULT_IP_UV c else 0))
            AND NOT (if sqrOutput (vacRMS s1) <s PFC_INPUT_OVER_VOLTAGE_LIMIT_LO c
                     then PFC_FAULT_IP_OV c else 0)"
        using PFC_StateMachine_FAULT_status [of c s1] qf k fu by simp
      then have "\<exists>f' g' h'. faultStatus q = fault_union c f' g' h'"
        using fault_union_clear_uv [OF d] fault_union_clear_ov [OF d]
        by (auto split: if_splits)
      then show ?thesis using e fault_union_in_unions by auto
    qed
    show ?thesis using a b PFC_FAULT by simp
  qed
qed

lemma PFC_ADCInterrupt_fault_status_step:
  assumes "PFC_ADCInterrupt c x adc s = Some (s', ev)"
    and "state s \<noteq> PFC_FAULT \<longrightarrow> faultStatus s = PFC_FAULT_NONE c"
  shows "(state s' \<noteq> PFC_FAULT \<longrightarrow> faultStatus s' = PFC_FAULT_NONE c)
     \<and> (fault_bits_disjoint c \<longrightarrow> faultStatus s \<in> set (fault_unions c)
           \<longrightarrow> faultStatus s' \<in> set (fault_unions c))
     \<and> (fault_bits_disjoint c \<longrightarrow> state s = PFC_CTRL_RUN \<longrightarrow>
           faultStatus s' =
             fault_union c (PFC_OUTPUT_OVER_VOLTAGE_LIMIT c \<le>s output_avg (vdcAVG s'))
               (sqrOutput (vacRMS s') <s PFC_INPUT_UNDER_VOLTAGE_LIMIT_LO c)
               (PFC_INPUT_OVER_VOLTAGE_LIMIT_HI c \<le>s sqrOutput (vacRMS s')))"
proof -
  let ?l = "s\<lparr>pfcVoltage := (pfcVoltage s)\<lparr>vdc := fst adc, vac := fst (snd adc)\<rparr>,
               pfcCurrent := (pfcCurrent s)\<lparr>iL_meas := snd (snd adc)\<rparr>\<rparr>"
  obtain s'' ev'' where r: "PFC_StateMachine c x ?l = Some (s'', ev'')" "s' = s''\<lparr>duty := duty s'\<rparr>"
    using PFC_ADCInterrupt_unfold [OF assms(1)] by blast
  have e: "state s' = state s'' \<and> faultStatus s' = faultStatus s'' \<and> vdcAVG s' = vdcAVG s''
      \<and> vacRMS s' = vacRMS s''"
    using arg_cong [OF r(2), of state] arg_cong [OF r(2), of faultStatus]
      arg_cong [OF r(2), of vdcAVG] arg_cong [OF r(2), of vacRMS] by simp
  have "state ?l \<noteq> PFC_FAULT \<longrightarrow> faultStatus ?l = PFC_FAULT_NONE c"
    using assms(2) by simp
  from PFC_StateMachine_fault_status_step [OF r(1) this] show ?thesis
    using e by simp
qed

text \<open>
  C8.  In every context the running program can hold, the run state goes with a fault
  status equal to \<open>PFC_FAULT_NONE\<close>; the fault check, which runs in the run state
  only, therefore starts from that value.  When the fault constants are 0 and three
  masks without a common bit, the fault status is at all times one of the eight
  bitwise unions of the masks, and after an interrupt entered in the run state it is
  the union of exactly the masks whose condition holds.
\<close>

theorem fault_status_never_double_counted:
  assumes "reachable c x s"
  shows "(state s = PFC_CTRL_RUN \<longrightarrow> faultStatus s = PFC_FAULT_NONE c)
     \<and> (fault_bits_disjoint c \<longrightarrow>
          faultStatus s \<in> set (fault_unions c)
          \<and> (\<forall>adc s' ev. state s = PFC_CTRL_RUN \<and> PFC_ADCInterrupt c x adc s = Some (s', ev) \<longrightarrow>
                faultStatus s' =
                  fault_union c (PFC_OUTPUT_OVER_VOLTAGE_LIMIT c \<le>s output_avg (vdcAVG s'))
                    (sqrOutput (vacRMS s') <s PFC_INPUT_UNDER_VOLTAGE_LIMIT_LO c)
                    (PFC_INPUT_OVER_VOLTAGE_LIMIT_HI c \<le>s sqrOutput (vacRMS s'))))"
proof -
  have inv: "(state s \<noteq> PFC_FAULT \<longrightarrow> faultStatus s = PFC_FAULT_NONE c)
      \<and> (fault_bits_disjoint c \<longrightarrow> faultStatus s \<in> set (fault_unions c))"
    using assms
  proof (induction rule: reachable.induct)
    case (reachable_init pfcParam)
    have "fault_bits_disjoint c \<longrightarrow> PFC_FAULT_NONE c = fault_union c False False False"
      by (simp add: fault_bits_disjoint_def fault_union_def)
    then show ?case
      using fault_union_in_unions [of c False False False]
      by (auto simp: PFC_ParamsInit_def Let_def)
  next
    case (reachable_step s adc s' events)
    then show ?case
      using PFC_ADCInterrupt_fault_status_step [of c x adc s s' events] by blast
  qed
  then show ?thesis
    using PFC_ADCInterrupt_fault_status_step [of c x _ s] by (auto simp del: set_simps)
qed

lemma reachable_calls:
  "reachable c x s \<Longrightarrow> PFC_ADCInterrupt_calls c x s adcs = Some s' \<Longrightarrow> reachable c x s'"
proof (induction adcs arbitrary: s)
  case Nil
  then show ?case by simp
next
  case (Cons adc adcs)
  then obtain s1 ev where r: "PFC_ADCInterrupt c x adc s = Some (s1, ev)"
      and rest: "PFC_ADCInterrupt_calls c x s1 adcs = Some s'"
    by (auto split: option.splits)
  have "reachable c x s1" using Cons.prems(1) r by (rule reachable_step)
  then show ?case using rest by (rule Cons.IH)
qed

theorem fault_status_never_double_counted_witness:
  "reachable config_example extern_example
     (the (PFC_ADCInterrupt_calls config_example extern_example
             (PFC_ParamsInit config_example pfcParam_zero) (replicate 4 (19000, 4000, 1000))))
   \<and> fault_bits_disjoint config_example
   \<and> (\<exists>s4 s5 ev.
         PFC_ADCInterrupt_calls config_example extern_example
             (PFC_ParamsInit config_example pfcParam_zero) (replicate 4 (19000, 4000, 1000)) = Some s4
       \<and> state s4 = PFC_CTRL_RUN
       \<and> faultStatus s4 = PFC_FAULT_NONE config_example
       \<and> faultStatus s4 \<in> set (fault_unions config_example)
       \<and> PFC_ADCInterrupt config_example extern_example (19000, 4000, 1000) s4 = Some (s5, ev)
       \<and> sqrOutput (vacRMS s5) <s PFC_INPUT_UNDER_VOLTAGE_LIMIT_LO config_example
       \<and> faultStatus s5 = fault_union config_example False True False
       \<and> state s5 = PFC_FAULT)"
proof -
  let ?c = config_example and ?x = extern_example
  let ?adc = "(19000, 4000, 1000) :: int16_t \<times> int16_t \<times> int16_t"
  let ?s0 = "PFC_ParamsInit config_example pfcParam_zero"
  define s4 where "s4 = the (PFC_ADCInterrupt_calls ?c ?x ?s0 (replicate 4 ?adc))"
  define s5 where "s5 = fst (the (PFC_ADCInterrupt ?c ?x ?adc s4))"
  define ev where "ev = snd (the (PFC_ADCInterrupt ?c ?x ?adc s4))"
  have "PFC_ADCInterrupt_calls ?c ?x ?s0 (replicate 4 ?adc) \<noteq> None" by code_simp
  then have r4: "PFC_ADCInterrupt_calls ?c ?x ?s0 (replicate 4 ?adc) = Some s4"
    by (auto simp: s4_def)
  have reach: "reachable ?c ?x s4"
    using reachable_init [of ?c ?x pfcParam_zero] r4 by (rule reachable_calls)
  have d: "fault_bits_disjoint ?c" by code_simp
  have st4: "state s4 = PFC_CTRL_RUN" unfolding s4_def by code_simp
  have "PFC_ADCInterrupt ?c ?x ?adc s4 \<noteq> None" unfolding s4_def by code_simp
  then have r5: "PFC_ADCInterrupt ?c ?x ?adc s4 = Some (s5, ev)"
    by (auto simp: s5_def ev_def)
  have ov: "\<not> PFC_OUTPUT_OVER_VOLTAGE_LIMIT ?c \<le>s output_avg (vdcAVG s5)"
    unfolding s5_def s4_def by code_simp
  have uv: "sqrOutput (vacRMS s5) <s PFC_INPUT_UNDER_VOLTAGE_LIMIT_LO ?c"
    unfolding s5_def s4_def by code_simp
  have iov: "\<not> PFC_INPUT_OVER_VOLTAGE_LIMIT_HI ?c \<le>s sqrOutput (vacRMS s5)"
    unfolding s5_def s4_def by code_simp
  have st5: "state s5 = PFC_FAULT" unfolding s5_def s4_def by code_simp
  note t = fault_status_never_double_counted [OF reach]
  have a: "faultStatus s4 = PFC_FAULT_NONE ?c" using t st4 by blast
  have b: "faultStatus s4 \<in> set (fault_unions ?c)" using t d by blast
  have "faultStatus s5 =
      fault_union ?c (PFC_OUTPUT_OVER_VOLTAGE_LIMIT ?c \<le>s output_avg (vdcAVG s5))
        (sqrOutput (vacRMS s5) <s PFC_INPUT_UNDER_VOLTAGE_LIMIT_LO ?c)
        (PFC_INPUT_OVER_VOLTAGE_LIMIT_HI ?c \<le>s sqrOutput (vacRMS s5))"
    using t d st4 r5 by blast
  then have e: "faultStatus s5 = fault_union ?c False True False"
    using ov uv iov by simp
  show ?thesis
    using reach d r4 st4 a b r5 uv e st5 unfolding s4_def [symmetric] by blast
qed

lemma PFC_CurrentRefGenerate_total: "\<exists>s'. PFC_CurrentRefGenerate c x s = Some s'"
proof -
  define s0 where "s0 =
       (if VOLTAGE_LOOP_EXE_RATE c <s voltLoopExeRate s
        then let pv = piVoltage s;
                 pv = pv\<lparr>error_pi := reference pv - output_avg (vdcAVG s)\<rparr>;
                 pv = (if 700 <s error_pi pv \<or> error_pi pv <s - 700
                       then pv\<lparr>ki := signed_drop_bit 1 (KI_V c)\<rparr>
                       else pv\<lparr>ki := KI_V c\<rparr>);
                 pv = PFC_PIController x pv (error_pi pv)
             in s\<lparr>piVoltage := pv, voltLoopExeRate := 0\<rparr>
        else s\<lparr>voltLoopExeRate := voltLoopExeRate s + 1\<rparr>)"
  let ?t = "ucast (signed_drop_bit 18 (builtin_mulss (output_pi (piVoltage s0)) (rectifiedVac s0))) :: int16_t"
  have "\<exists>q. (if 0 <s sqrOutput (vacRMS s0)
              then builtin_divf (divf_overflow x) ?t (sqrOutput (vacRMS s0))
              else Some ?t) = Some q"
    using builtin_divf_total [of "sqrOutput (vacRMS s0)" "divf_overflow x" ?t]
      signed_positive_nonzero [of "sqrOutput (vacRMS s0)"] by auto
  then obtain q where q: "(if 0 <s sqrOutput (vacRMS s0)
              then builtin_divf (divf_overflow x) ?t (sqrOutput (vacRMS s0))
              else Some ?t) = Some q" by blast
  show ?thesis
    unfolding PFC_CurrentRefGenerate_def s0_def [symmetric] using q
    by (cases "PFC_POWER_CONTROL c") (simp_all add: Let_def)
qed

lemma PFC_StateMachine_boostDutyRatio_total: "\<exists>s'. PFC_StateMachine_boostDutyRatio x s = Some s'"
proof (cases "0 <s vdc (pfcVoltage s)")
  case True
  then obtain q where "builtin_divf (divf_overflow x)
               (vdc (pfcVoltage s) - rectifiedVac s) (vdc (pfcVoltage s)) = Some q"
    using builtin_divf_total signed_positive_nonzero by blast
  with True show ?thesis by (simp add: PFC_StateMachine_boostDutyRatio_def)
next
  case False
  then show ?thesis by (simp add: PFC_StateMachine_boostDutyRatio_def)
qed

lemma PFC_CurrentControlLoop_total: "\<exists>s'. PFC_CurrentControlLoop c x s = Some s'"
  using PFC_CurrentControlLoop_unfold [of c x s] by (auto simp: Let_def)

lemma PFC_StateMachine_CTRL_RUN_total: "\<exists>r. PFC_StateMachine_CTRL_RUN c x s1 = Some r"
proof -
  obtain s4 where s4: "PFC_CurrentRefGenerate c x (PFC_StateMachine_softStart c (run_entry c s1)) = Some s4"
    using PFC_CurrentRefGenerate_total by blast
  obtain s5 where s5: "PFC_StateMachine_boostDutyRatio x s4 = Some s5"
    using PFC_StateMachine_boostDutyRatio_total by blast
  obtain s6 where s6: "PFC_CurrentControlLoop c x s5 = Some s6"
    using PFC_CurrentControlLoop_total by blast
  show ?thesis
    unfolding PFC_StateMachine_CTRL_RUN_unfold using s4 s5 s6 by simp
qed

lemma PFC_StateMachine_total:
  assumes "window_limits_nonzero p"
  shows "\<exists>r. PFC_StateMachine c x p = Some r"
proof -
  obtain s1 where s1: "PFC_StateMachine_conditioning x p = Some s1"
    using assms PFC_StateMachine_conditioning_total by blast
  obtain r where r: "PFC_StateMachine_CTRL_RUN c x s1 = Some r"
    using PFC_StateMachine_CTRL_RUN_total by blast
  show ?thesis
    using s1 r by (cases "state p"; cases r) (simp_all add: PFC_StateMachine_def Let_def split_beta)
qed

lemma PFC_ADCInterrupt_total:
  assumes "window_limits_nonzero s"
  shows "\<exists>r. PFC_ADCInterrupt c x adc s = Some r"
proof -
  let ?l = "s\<lparr>pfcVoltage := (pfcVoltage s)\<lparr>vdc := fst adc, vac := fst (snd adc)\<rparr>,
               pfcCurrent := (pfcCurrent s)\<lparr>iL_meas := snd (snd adc)\<rparr>\<rparr>"
  have "window_limits_nonzero ?l" using assms by (simp add: window_limits_nonzero_def)
  then obtain r where "PFC_StateMachine c x ?l = Some r"
    using PFC_StateMachine_total by blast
  then show ?thesis
    by (cases adc; cases r) (simp add: PFC_ADCInterrupt_def Let_def)
qed

lemma PFC_ADCInterrupt_keeps_limits:
  assumes "PFC_ADCInterrupt c x adc s = Some (s', ev)"
  shows "sampleLimit_avg (vdcAVG s') = sampleLimit_avg (vdcAVG s)
     \<and> sampleLimit_avg (vacAVG s') = sampleLimit_avg (vacAVG s)
     \<and> sampleLimit_rms (vacRMS s') = sampleLimit_rms (vacRMS s)"
proof -
  let ?l = "s\<lparr>pfcVoltage := (pfcVoltage s)\<lparr>vdc := fst adc, vac := fst (snd adc)\<rparr>,
               pfcCurrent := (pfcCurrent s)\<lparr>iL_meas := snd (snd adc)\<rparr>\<rparr>"
  obtain s'' ev'' where r: "PFC_StateMachine c x ?l = Some (s'', ev'')" "s' = s''\<lparr>duty := duty s'\<rparr>"
    using PFC_ADCInterrupt_unfold [OF assms(1)] by blast
  have e: "vdcAVG s' = vdcAVG s'' \<and> vacAVG s' = vacAVG s'' \<and> vacRMS s' = vacRMS s''"
    using arg_cong [OF r(2), of vdcAVG] arg_cong [OF r(2), of vacAVG]
      arg_cong [OF r(2), of vacRMS] by simp
  show ?thesis using PFC_StateMachine_keeps_limits [OF r(1)] e by simp
qed

lemma reachable_limits:
  assumes "reachable c x s"
  shows "sampleLimit_avg (vdcAVG s) = push_bit (unat (PFC_AVG_SCALER c)) 1
     \<and> sampleLimit_avg (vacAVG s) = PFC_INPUT_FREQUENCY_COUNTER c
     \<and> sampleLimit_rms (vacRMS s) = PFC_RMS_SQUARE_COUNTMAX c"
  using assms
proof (induction rule: reachable.induct)
  case (reachable_init pfcParam)
  then show ?case by (simp add: PFC_ParamsInit_def Let_def)
next
  case (reachable_step s adc s' events)
  then show ?case using PFC_ADCInterrupt_keeps_limits [of c x adc s s' events] by simp
qed

lemma PFC_StateMachine_boostDutyRatio_guard:
  "(\<not> 0 <s vdc (pfcVoltage s) \<longrightarrow> PFC_StateMachine_boostDutyRatio x s = Some s)
   \<and> (0 <s vdc (pfcVoltage s) \<longrightarrow>
        (\<exists>q. builtin_divf (divf_overflow x) (vdc (pfcVoltage s) - rectifiedVac s)
                 (vdc (pfcVoltage s)) = Some q
           \<and> PFC_StateMachine_boostDutyRatio x s = Some (s\<lparr>boostDutyRatio := q\<rparr>)))"
proof (cases "0 <s vdc (pfcVoltage s)")
  case True
  then obtain q where "builtin_divf (divf_overflow x)
               (vdc (pfcVoltage s) - rectifiedVac s) (vdc (pfcVoltage s)) = Some q"
    using builtin_divf_total signed_positive_nonzero by blast
  with True show ?thesis by (simp add: PFC_StateMachine_boostDutyRatio_def)
next
  case False
  then show ?thesis by (simp add: PFC_StateMachine_boostDutyRatio_def)
qed

lemma PFC_CurrentSampleCorrection_guard:
  "(\<not> 0 <s boostDutyRatio s \<longrightarrow>
      PFC_CurrentSampleCorrection c x s =
        Some (if 0 <s Q15_0_9999 c
              then ucast (signed_drop_bit 15 (builtin_mulss (iL s) (Q15_0_9999 c)))
              else iL s))
   \<and> (0 <s boostDutyRatio s \<longrightarrow>
        (\<exists>q. builtin_divf (divf_overflow x) (output_pi (piCurrent s)) (boostDutyRatio s) = Some q
           \<and> PFC_CurrentSampleCorrection c x s =
               Some (if 0 <s q then ucast (signed_drop_bit 15 (builtin_mulss (iL s) q))
                     else iL s)))"
proof (cases "0 <s boostDutyRatio s")
  case True
  then obtain q where
    "builtin_divf (divf_overflow x) (output_pi (piCurrent s)) (boostDutyRatio s) = Some q"
    using builtin_divf_total signed_positive_nonzero by blast
  with True show ?thesis by (simp add: PFC_CurrentSampleCorrection_def)
next
  case False
  then show ?thesis by (simp add: PFC_CurrentSampleCorrection_def)
qed

lemma PFC_CurrentRefGenerate_guard:
  "\<exists>s'. PFC_CurrentRefGenerate c x s = Some s'
     \<and> (PFC_POWER_CONTROL c \<and> \<not> 0 <s sqrOutput (vacRMS s) \<longrightarrow>
          (let t = (ucast (signed_drop_bit 18
                      (builtin_mulss (output_pi (piVoltage s')) (rectifiedVac s))) :: int16_t);
               r = (ucast (signed_drop_bit 12 (builtin_mulss t (KMUL c))) :: int16_t)
           in currentReference s' =
                (if Q15_0_999 c <s r then Q15_0_999 c else if r <s 0 then 0 else r)))
     \<and> (PFC_POWER_CONTROL c \<and> 0 <s sqrOutput (vacRMS s) \<longrightarrow>
          (let t = (ucast (signed_drop_bit 18
                      (builtin_mulss (output_pi (piVoltage s')) (rectifiedVac s))) :: int16_t)
           in \<exists>q. builtin_divf (divf_overflow x) t (sqrOutput (vacRMS s)) = Some q
                \<and> (let r = (ucast (signed_drop_bit 12 (builtin_mulss q (KMUL c))) :: int16_t)
                    in currentReference s' =
                         (if Q15_0_999 c <s r then Q15_0_999 c else if r <s 0 then 0 else r))))
     \<and> (\<not> PFC_POWER_CONTROL c \<longrightarrow>
          currentReference s' =
            (if Q15_0_999 c <s currentReference s then Q15_0_999 c
             else if currentReference s <s 0 then 0 else currentReference s))"
proof -
  define s0 where "s0 =
       (if VOLTAGE_LOOP_EXE_RATE c <s voltLoopExeRate s
        then let pv = piVoltage s;
                 pv = pv\<lparr>error_pi := reference pv - output_avg (vdcAVG s)\<rparr>;
                 pv = (if 700 <s error_pi pv \<or> error_pi pv <s - 700
                       then pv\<lparr>ki := signed_drop_bit 1 (KI_V c)\<rparr>
                       else pv\<lparr>ki := KI_V c\<rparr>);
                 pv = PFC_PIController x pv (error_pi pv)
             in s\<lparr>piVoltage := pv, voltLoopExeRate := 0\<rparr>
        else s\<lparr>voltLoopExeRate := voltLoopExeRate s + 1\<rparr>)"
  have k: "rectifiedVac s0 = rectifiedVac s \<and> vacRMS s0 = vacRMS s
      \<and> currentReference s0 = currentReference s"
    by (simp add: s0_def Let_def)
  let ?t = "ucast (signed_drop_bit 18 (builtin_mulss (output_pi (piVoltage s0)) (rectifiedVac s))) :: int16_t"
  show ?thesis
  proof (cases "PFC_POWER_CONTROL c")
    case False
    then show ?thesis
      unfolding PFC_CurrentRefGenerate_def s0_def [symmetric] using k
      by (simp add: Let_def)
  next
    case pc: True
    show ?thesis
    proof (cases "0 <s sqrOutput (vacRMS s)")
      case False
      then show ?thesis
        unfolding PFC_CurrentRefGenerate_def s0_def [symmetric] using k pc
        by (simp add: Let_def)
    next
      case True
      then obtain q where q: "builtin_divf (divf_overflow x) ?t (sqrOutput (vacRMS s)) = Some q"
        using builtin_divf_total signed_positive_nonzero by blast
      show ?thesis
        unfolding PFC_CurrentRefGenerate_def s0_def [symmetric] using k pc True q
        by (simp add: Let_def)
    qed
  qed
qed

section \<open>Division by zero\<close>

text \<open>
  C3, amended.  A fractional divide traps exactly on a zero divisor, and each of the
  three fractional divides is performed only when its divisor is positive.  The
  boost duty ratio is computed by the divide when \<open>vdc > 0\<close> and the context is left
  as it is otherwise.  Sample correction divides by \<open>boostDutyRatio\<close> when that is
  positive and otherwise uses \<open>Q15(0.9999)\<close> in place of the quotient.  With
  \<open>PFC_POWER_CONTROL\<close>, current-reference generation divides by the mean square when
  that is positive and otherwise takes the undivided product; without it there is
  no divide.  So these three return for every context.  The two window divisions by
  \<open>sampleLimit\<close> carry no test; an interrupt returns for every context whose three
  window lengths are nonzero, hence for every context the program can hold when the
  three configured window lengths are nonzero.
\<close>

theorem guarded_divisions_do_not_trap:
  "((\<not> 0 <s vdc (pfcVoltage s) \<longrightarrow> PFC_StateMachine_boostDutyRatio x s = Some s)
    \<and> (0 <s vdc (pfcVoltage s) \<longrightarrow>
        (\<exists>q. builtin_divf (divf_overflow x) (vdc (pfcVoltage s) - rectifiedVac s)
                 (vdc (pfcVoltage s)) = Some q
           \<and> PFC_StateMachine_boostDutyRatio x s = Some (s\<lparr>boostDutyRatio := q\<rparr>))))
   \<and> ((\<not> 0 <s boostDutyRatio s \<longrightarrow>
         PFC_CurrentSampleCorrection c x s =
           Some (if 0 <s Q15_0_9999 c
                 then ucast (signed_drop_bit 15 (builtin_mulss (iL s) (Q15_0_9999 c)))
                 else iL s))
      \<and> (0 <s boostDutyRatio s \<longrightarrow>
          (\<exists>q. builtin_divf (divf_overflow x) (output_pi (piCurrent s)) (boostDutyRatio s) = Some q
             \<and> PFC_CurrentSampleCorrection c x s =
                 Some (if 0 <s q then ucast (signed_drop_bit 15 (builtin_mulss (iL s) q))
                       else iL s))))
   \<and> (\<exists>s'. PFC_CurrentRefGenerate c x s = Some s'
     \<and> (PFC_POWER_CONTROL c \<and> \<not> 0 <s sqrOutput (vacRMS s) \<longrightarrow>
          (let t = (ucast (signed_drop_bit 18
                      (builtin_mulss (output_pi (piVoltage s')) (rectifiedVac s))) :: int16_t);
               r = (ucast (signed_drop_bit 12 (builtin_mulss t (KMUL c))) :: int16_t)
           in currentReference s' =
                (if Q15_0_999 c <s r then Q15_0_999 c else if r <s 0 then 0 else r)))
     \<and> (PFC_POWER_CONTROL c \<and> 0 <s sqrOutput (vacRMS s) \<longrightarrow>
          (let t = (ucast (signed_drop_bit 18
                      (builtin_mulss (output_pi (piVoltage s')) (rectifiedVac s))) :: int16_t)
           in \<exists>q. builtin_divf (divf_overflow x) t (sqrOutput (vacRMS s)) = Some q
                \<and> (let r = (ucast (signed_drop_bit 12 (builtin_mulss q (KMUL c))) :: int16_t)
                    in currentReference s' =
                         (if Q15_0_999 c <s r then Q15_0_999 c else if r <s 0 then 0 else r))))
     \<and> (\<not> PFC_POWER_CONTROL c \<longrightarrow>
          currentReference s' =
            (if Q15_0_999 c <s currentReference s then Q15_0_999 c
             else if currentReference s <s 0 then 0 else currentReference s)))
   \<and> (\<forall>num den. (\<exists>q. builtin_divf (divf_overflow x) num den = Some q) \<longleftrightarrow> den \<noteq> 0)
   \<and> (window_limits_nonzero s \<longrightarrow> (\<exists>r. PFC_ADCInterrupt c x adc s = Some r))
   \<and> (reachable c x s \<and> push_bit (unat (PFC_AVG_SCALER c)) (1 :: int16_t) \<noteq> 0
        \<and> PFC_INPUT_FREQUENCY_COUNTER c \<noteq> 0 \<and> PFC_RMS_SQUARE_COUNTMAX c \<noteq> 0
      \<longrightarrow> (\<exists>r. PFC_ADCInterrupt c x adc s = Some r))"
proof -
  have d: "\<forall>num den. (\<exists>q. builtin_divf (divf_overflow x) num den = Some q) \<longleftrightarrow> den \<noteq> 0"
    by (simp add: builtin_divf_def)
  have w: "window_limits_nonzero s \<longrightarrow> (\<exists>r. PFC_ADCInterrupt c x adc s = Some r)"
    using PFC_ADCInterrupt_total [of s c x adc] by blast
  have r: "reachable c x s \<and> push_bit (unat (PFC_AVG_SCALER c)) (1 :: int16_t) \<noteq> 0
        \<and> PFC_INPUT_FREQUENCY_COUNTER c \<noteq> 0 \<and> PFC_RMS_SQUARE_COUNTMAX c \<noteq> 0
      \<longrightarrow> (\<exists>r. PFC_ADCInterrupt c x adc s = Some r)"
    using PFC_ADCInterrupt_total [of s c x adc] reachable_limits [of c x s]
    by (auto simp: window_limits_nonzero_def)
  show ?thesis
    using PFC_StateMachine_boostDutyRatio_guard [of s x] PFC_CurrentSampleCorrection_guard [of s c x]
      PFC_CurrentRefGenerate_guard [of c x s] d w r
    by (intro conjI) blast+
qed

text \<open>
  C3.  As stated the claim fails: the divisions of the two window filters are not
  guarded.  With a window length of 0 the moving average and the mean-square
  accumulator divide by zero on their first call, and so does the first interrupt
  after initialisation when \<open>PFC_INPUT_FREQUENCY_COUNTER\<close> is 0.
\<close>

theorem unguarded_window_division_counterexample:
  "PFC_Average extern_example avg_zero 5 = None
   \<and> PFC_SquaredRMSCalculate extern_example rms_zero 5 = None
   \<and> PFC_ADCInterrupt (config_example\<lparr>PFC_INPUT_FREQUENCY_COUNTER := 0\<rparr>) extern_example
        (19000, 4000, 1000)
        (PFC_ParamsInit (config_example\<lparr>PFC_INPUT_FREQUENCY_COUNTER := 0\<rparr>) pfcParam_zero) = None"
  by code_simp

theorem guarded_divisions_do_not_trap_witness:
  "\<not> 0 <s vdc (pfcVoltage (ctrl_run_example\<lparr>pfcVoltage := \<lparr>vdc = - 20000, vac = 4000, offsetVac = 0\<rparr>\<rparr>))
   \<and> PFC_StateMachine_boostDutyRatio extern_example
         (ctrl_run_example\<lparr>pfcVoltage := \<lparr>vdc = - 20000, vac = 4000, offsetVac = 0\<rparr>\<rparr>)
       = Some (ctrl_run_example\<lparr>pfcVoltage := \<lparr>vdc = - 20000, vac = 4000, offsetVac = 0\<rparr>\<rparr>)
   \<and> 0 <s boostDutyRatio ctrl_run_example
   \<and> (\<exists>q. builtin_divf (divf_overflow extern_example) (output_pi (piCurrent ctrl_run_example))
              (boostDutyRatio ctrl_run_example) = Some q
         \<and> PFC_CurrentSampleCorrection config_example extern_example ctrl_run_example =
              Some (if 0 <s q
                    then ucast (signed_drop_bit 15 (builtin_mulss (iL ctrl_run_example) q))
                    else iL ctrl_run_example))
   \<and> window_limits_nonzero ctrl_run_example
   \<and> (\<exists>r. PFC_ADCInterrupt config_example extern_example (19000, 4000, 1000) ctrl_run_example
              = Some r)
   \<and> reachable config_example extern_example (PFC_ParamsInit config_example pfcParam_zero)
   \<and> push_bit (unat (PFC_AVG_SCALER config_example)) (1 :: int16_t) \<noteq> 0
   \<and> PFC_INPUT_FREQUENCY_COUNTER config_example \<noteq> 0
   \<and> PFC_RMS_SQUARE_COUNTMAX config_example \<noteq> 0
   \<and> (\<exists>r. PFC_ADCInterrupt config_example extern_example (19000, 4000, 1000)
              (PFC_ParamsInit config_example pfcParam_zero) = Some r)"
proof -
  let ?n = "ctrl_run_example\<lparr>pfcVoltage := \<lparr>vdc = - 20000, vac = 4000, offsetVac = 0\<rparr>\<rparr>"
  let ?adc = "(19000, 4000, 1000) :: int16_t \<times> int16_t \<times> int16_t"
  let ?c = config_example and ?x = extern_example
  let ?i = "PFC_ParamsInit config_example pfcParam_zero"
  have g: "\<not> 0 <s vdc (pfcVoltage ?n)" by (simp add: word_sless_alt)
  have p: "0 <s boostDutyRatio ctrl_run_example" by code_simp
  have w: "window_limits_nonzero ctrl_run_example" by code_simp
  have r: "reachable ?c ?x ?i" by (rule reachable_init)
  have n: "push_bit (unat (PFC_AVG_SCALER ?c)) (1 :: int16_t) \<noteq> 0
        \<and> PFC_INPUT_FREQUENCY_COUNTER ?c \<noteq> 0 \<and> PFC_RMS_SQUARE_COUNTMAX ?c \<noteq> 0"
    by code_simp
  note t1 = guarded_divisions_do_not_trap [of ?n ?x ?c ?adc]
  note t2 = guarded_divisions_do_not_trap [of ctrl_run_example ?x ?c ?adc]
  note t3 = guarded_divisions_do_not_trap [of ?i ?x ?c ?adc]
  have a1: "PFC_StateMachine_boostDutyRatio ?x ?n = Some ?n"
    using t1 [THEN conjunct1, THEN conjunct1] g by (rule mp)
  have a2: "\<exists>q. builtin_divf (divf_overflow ?x) (output_pi (piCurrent ctrl_run_example))
              (boostDutyRatio ctrl_run_example) = Some q
         \<and> PFC_CurrentSampleCorrection ?c ?x ctrl_run_example =
              Some (if 0 <s q
                    then ucast (signed_drop_bit 15 (builtin_mulss (iL ctrl_run_example) q))
                    else iL ctrl_run_example)"
    using t2 [THEN conjunct2, THEN conjunct1, THEN conjunct2] p by (rule mp)
  have a3: "\<exists>r. PFC_ADCInterrupt ?c ?x ?adc ctrl_run_example = Some r"
    using t2 [THEN conjunct2, THEN conjunct2, THEN conjunct2, THEN conjunct2, THEN conjunct1] w
    by (rule mp)
  have a4: "\<exists>r. PFC_ADCInterrupt ?c ?x ?adc ?i = Some r"
    using t3 [THEN conjunct2, THEN conjunct2, THEN conjunct2, THEN conjunct2, THEN conjunct2]
      r n by blast
  show ?thesis
    using g a1 p a2 w a3 r n a4 by (intro conjI) (simp_all only: simp_thms)
qed

end
